theory Spec2Isabelle
  imports Complex_Main "HOL-Library.Log_Nat" "HOL-Library.Char_ord" "HOL-Library.List_Lexorder"
    "HOL-Library.Product_Lexorder"
begin


section \<open>Errors\<close>

text \<open>
  The Python exceptions that the modelled code raises or lets through. A function that can
  raise returns \<open>error + 'a\<close>, with \<open>Inl\<close> for the exception.
\<close>

datatype error = ValueError string | TypeError | KeyError string | OverflowError | IndexError
  | ZeroDivisionError

fun collect :: "(error + 'a) list \<Rightarrow> error + 'a list" where
  "collect [] = Inr []"
| "collect (Inl e # rs) = Inl e"
| "collect (Inr v # rs) = (case collect rs of Inl e \<Rightarrow> Inl e | Inr vs \<Rightarrow> Inr (v # vs))"

section \<open>float64 values\<close>

text \<open>
  A float64 is a finite binary fraction, an infinity (\<open>Infty True\<close> is \<open>+inf\<close>) or NaN.
  Every arithmetic operation computes the exact rational result and rounds it to the
  nearest representable value, ties to the even significand (53 bits, exponents from
  \<open>-1022\<close> to \<open>1023\<close>, gradual underflow below). The sign of zero is not represented.
\<close>

datatype f64 = Num rat | Infty bool | NaN

definition pow2 :: "int \<Rightarrow> rat" where
  "pow2 e = 2 powi e"

definition expo :: "rat \<Rightarrow> int" where
  "expo x = (let k = bitlen (fst (quotient_of \<bar>x\<bar>)) - bitlen (snd (quotient_of \<bar>x\<bar>))
             in if pow2 k \<le> \<bar>x\<bar> then k else k - 1)"

definition round_half_even :: "rat \<Rightarrow> int" where
  "round_half_even y = (let f = \<lfloor>y\<rfloor>; d = y - of_int f in
     if d < 1 / 2 then f else if 1 / 2 < d then f + 1 else if even f then f else f + 1)"

definition quantum :: "rat \<Rightarrow> rat" where
  "quantum x = pow2 (max (expo x) (- 1022) - 52)"

definition round64 :: "rat \<Rightarrow> f64" where
  "round64 x = (if x = 0 then Num 0 else
     let r = of_int (round_half_even (x / quantum x)) * quantum x
     in if pow2 1024 \<le> \<bar>r\<bar> then Infty (0 < x) else Num r)"

fun fneg :: "f64 \<Rightarrow> f64" where
  "fneg (Num a) = Num (- a)"
| "fneg (Infty s) = Infty (\<not> s)"
| "fneg NaN = NaN"

fun fadd :: "f64 \<Rightarrow> f64 \<Rightarrow> f64" where
  "fadd (Num a) (Num b) = round64 (a + b)"
| "fadd (Num a) (Infty s) = Infty s"
| "fadd (Infty s) (Num b) = Infty s"
| "fadd (Infty s) (Infty t) = (if s = t then Infty s else NaN)"
| "fadd NaN y = NaN"
| "fadd x NaN = NaN"

definition fsub :: "f64 \<Rightarrow> f64 \<Rightarrow> f64" where
  "fsub x y = fadd x (fneg y)"

fun fdiv :: "f64 \<Rightarrow> f64 \<Rightarrow> f64" where
  "fdiv (Num a) (Num b) =
     (if b = 0 then (if a = 0 then NaN else Infty (0 < a)) else round64 (a / b))"
| "fdiv (Num a) (Infty s) = Num 0"
| "fdiv (Infty s) (Num b) = Infty (s = (0 \<le> b))"
| "fdiv (Infty s) (Infty t) = NaN"
| "fdiv NaN y = NaN"
| "fdiv x NaN = NaN"

text \<open>The literal \<open>1e-6\<close> denotes the float64 nearest to one millionth.\<close>

definition eps_1e6 :: f64 where
  "eps_1e6 = round64 (1 / 1000000)"

section \<open>Raw records\<close>

text \<open>
  A raw record field is a Python value: \<open>None\<close>, a bool, an int, a float, a str or a
  dict with string keys. \<open>np.nan\<close> is \<open>PFloat NaN\<close>.
\<close>

datatype pyval = PNone | PBool bool | PInt int | PFloat f64 | PStr string
  | PDict "(string \<times> pyval) list"

abbreviation np_nan :: pyval where
  "np_nan \<equiv> PFloat NaN"

fun is_dict :: "pyval \<Rightarrow> bool" where
  "is_dict (PDict kvs) = True"
| "is_dict v = False"


fun is_float :: "pyval \<Rightarrow> bool" where
  "is_float (PFloat f) = True"
| "is_float v = False"

text \<open>\<open>get_feature\<close> of \<open>feature_generator.py\<close>: a value that is not a dict has no features.\<close>

fun get_feature :: "pyval \<Rightarrow> string \<Rightarrow> pyval \<Rightarrow> pyval" where
  "get_feature (PDict kvs) feature_name dflt =
     (case map_of kvs feature_name of Some v \<Rightarrow> v | None \<Rightarrow> dflt)"
| "get_feature v feature_name dflt = dflt"

section \<open>Column dtypes and arithmetic\<close>

text \<open>
  \<open>Series.apply\<close> collects the values returned for the records and lets pandas choose the
  dtype of the new column (\<open>lib.maybe_convert_objects\<close>). The values are scanned in order.
  The scan notes what it has seen and stops at the first value that forces the object
  dtype: text, a dict, an int outside \<open>[-2^63, 2^64)\<close>, or an int that makes the column hold
  both a negative int and one of \<open>2^63\<close> or more. The range of an int is not looked at once
  a \<open>None\<close> has been seen. Every int that is scanned is also converted to float64, which
  raises \<open>OverflowError\<close> for an int beyond the float64 range.
\<close>

record seen =
  seen_null :: bool
  seen_nan :: bool
  seen_bool :: bool
  seen_float :: bool
  seen_int :: bool
  seen_uint :: bool
  seen_sint :: bool
  seen_object :: bool

definition nothing_seen :: seen where
  "nothing_seen = \<lparr>seen_null = False, seen_nan = False, seen_bool = False, seen_float = False,
     seen_int = False, seen_uint = False, seen_sint = False, seen_object = False\<rparr>"

fun scan :: "seen \<Rightarrow> pyval list \<Rightarrow> error + seen" where
  "scan s [] = Inr s"
| "scan s (PNone # vs) = scan (s\<lparr>seen_null := True\<rparr>) vs"
| "scan s (PBool b # vs) = scan (s\<lparr>seen_bool := True\<rparr>) vs"
| "scan s (PFloat f # vs) =
     scan (if f = NaN then s\<lparr>seen_nan := True\<rparr> else s\<lparr>seen_float := True\<rparr>) vs"
| "scan s (PInt i # vs) =
     (case round64 (of_int i) of
        Num r \<Rightarrow>
          if seen_null s then scan (s\<lparr>seen_int := True\<rparr>) vs
          else
            let t = s\<lparr>seen_int := True,
                      seen_sint := seen_sint s \<or> (- (2 ^ 63) \<le> i \<and> i < 0),
                      seen_uint := seen_uint s \<or> (2 ^ 63 \<le> i \<and> i < 2 ^ 64)\<rparr>
            in if (seen_uint t \<and> seen_sint t) \<or> 2 ^ 64 \<le> i \<or> i < - (2 ^ 63)
               then Inr (t\<lparr>seen_object := True\<rparr>) else scan t vs
      | _ \<Rightarrow> Inl OverflowError)"
| "scan s (PStr t # vs) = Inr (s\<lparr>seen_object := True\<rparr>)"
| "scan s (PDict kvs # vs) = Inr (s\<lparr>seen_object := True\<rparr>)"

text \<open>
  The column is numeric when nothing forced the object dtype and it holds either bools
  only (dtype bool), or no bool and at least one number or NaN (dtype int64 or uint64 for
  ints alone, float64 otherwise). A bool next to anything else, \<open>None\<close> alone, and no value
  at all give the object dtype.
\<close>

definition is_numeric_seen :: "seen \<Rightarrow> bool" where
  "is_numeric_seen s \<longleftrightarrow> \<not> seen_object s \<and>
     (if seen_bool s then \<not> (seen_float s \<or> seen_int s \<or> seen_nan s \<or> seen_null s)
      else seen_float s \<or> seen_int s \<or> seen_nan s)"

text \<open>
  A column is numeric or holds Python objects. Every numeric dtype enters the arithmetic
  of line 50 as float64, so a numeric column is kept as its float64 values: \<open>None\<close> is
  stored as NaN, a bool counts as 0 or 1 and an int is rounded to the nearest float64.
  Text and dicts do not occur in a numeric column.
\<close>

datatype 'a series = NumericSeries "f64 list" | ObjectSeries "'a list"

fun float64_cell :: "pyval \<Rightarrow> f64" where
  "float64_cell PNone = NaN"
| "float64_cell (PBool b) = Num (if b then 1 else 0)"
| "float64_cell (PInt i) = round64 (of_int i)"
| "float64_cell (PFloat f) = f"
| "float64_cell (PStr t) = NaN"
| "float64_cell (PDict kvs) = NaN"

definition maybe_convert_objects :: "pyval list \<Rightarrow> error + pyval series" where
  "maybe_convert_objects vs =
     (case scan nothing_seen vs of
        Inl e \<Rightarrow> Inl e
      | Inr s \<Rightarrow> Inr (if is_numeric_seen s then NumericSeries (map float64_cell vs)
                       else ObjectSeries vs))"

definition series_apply :: "(pyval \<Rightarrow> pyval) \<Rightarrow> pyval list \<Rightarrow> error + pyval series" where
  "series_apply func xs = maybe_convert_objects (map func xs)"

text \<open>
  Arithmetic on an object column is Python's, cell by cell. An operation with a float
  converts the other operand to float: a bool or an int is converted (\<open>OverflowError\<close>
  beyond the float64 range), \<open>None\<close>, text and a dict raise \<open>TypeError\<close>. Python's float
  division raises \<open>ZeroDivisionError\<close> for a zero divisor, whatever the dividend.
\<close>

fun py_float :: "pyval \<Rightarrow> error + f64" where
  "py_float (PFloat f) = Inr f"
| "py_float (PBool b) = Inr (Num (if b then 1 else 0))"
| "py_float (PInt i) = (case round64 (of_int i) of Num r \<Rightarrow> Inr (Num r) | _ \<Rightarrow> Inl OverflowError)"
| "py_float PNone = Inl TypeError"
| "py_float (PStr t) = Inl TypeError"
| "py_float (PDict kvs) = Inl TypeError"

definition py_add :: "pyval \<Rightarrow> f64 \<Rightarrow> error + f64" where
  "py_add x y = (case py_float x of Inl e \<Rightarrow> Inl e | Inr a \<Rightarrow> Inr (fadd a y))"

definition py_truediv :: "pyval \<Rightarrow> f64 \<Rightarrow> error + f64" where
  "py_truediv x y =
     (case py_float x of
        Inl e \<Rightarrow> Inl e
      | Inr a \<Rightarrow> if y = Num 0 then Inl ZeroDivisionError else Inr (fdiv a y))"

text \<open>The missing values of an object column are \<open>None\<close> and NaN.\<close>

fun isnull :: "pyval \<Rightarrow> bool" where
  "isnull PNone = True"
| "isnull (PFloat f) = (f = NaN)"
| "isnull v = False"

text \<open>
  pandas evaluates an operation on an object column over all cells, in order. Should that
  raise \<open>TypeError\<close>, it evaluates the operation again on the cells where no operand is
  missing, and puts NaN in the others. Any other exception, and an exception of the
  second evaluation, ends the call. The argument lists, for every cell, whether an
  operand is missing and what the operation gives.
\<close>

definition na_arithmetic_op :: "(bool \<times> (error + f64)) list \<Rightarrow> error + f64 list" where
  "na_arithmetic_op rs =
     (if collect (map snd rs) = Inl TypeError
      then collect (map (\<lambda>(missing, r). if missing then Inr NaN else r) rs)
      else collect (map snd rs))"

text \<open>
  \<open>column + 1e-6\<close> and \<open>column / column\<close>. Numeric columns are added and divided as float64
  arrays, which raises nothing: a division by zero gives an infinity or NaN. As soon as
  one operand is an object column the operation is Python's on every cell, a numeric
  operand being turned into Python numbers first; the result is an object column of
  floats.
\<close>

fun series_cells :: "f64 series \<Rightarrow> f64 list" where
  "series_cells (NumericSeries fs) = fs"
| "series_cells (ObjectSeries fs) = fs"

fun series_objects :: "pyval series \<Rightarrow> pyval list" where
  "series_objects (NumericSeries fs) = map PFloat fs"
| "series_objects (ObjectSeries vs) = vs"

fun add_scalar :: "pyval series \<Rightarrow> f64 \<Rightarrow> error + f64 series" where
  "add_scalar (NumericSeries gs) y = Inr (NumericSeries (map (\<lambda>g. fadd g y) gs))"
| "add_scalar (ObjectSeries vs) y =
     (case na_arithmetic_op (map (\<lambda>v. (isnull v, py_add v y)) vs) of
        Inl e \<Rightarrow> Inl e
      | Inr ds \<Rightarrow> Inr (ObjectSeries ds))"

fun truediv :: "pyval series \<Rightarrow> f64 series \<Rightarrow> error + f64 series" where
  "truediv (NumericSeries ps) (NumericSeries ds) = Inr (NumericSeries (map2 fdiv ps ds))"
| "truediv a d =
     (case na_arithmetic_op
             (map2 (\<lambda>x y. (isnull x \<or> y = NaN, py_truediv x y)) (series_objects a) (series_cells d)) of
        Inl e \<Rightarrow> Inl e
      | Inr qs \<Rightarrow> Inr (ObjectSeries qs))"

text \<open>
  Lines 48 to 50 over the records \<open>xs\<close> (their \<open>espInputFeatures\<close> entries): the profit and
  the gas cost columns are extracted, each with the default \<open>np.nan\<close>, and the ratio column
  is \<open>A1 / (A2 + 1e-6)\<close>. The sum is evaluated before the quotient.
\<close>

definition A1_estimatedNetProfitUsd_PreEsp :: "pyval \<Rightarrow> pyval" where
  "A1_estimatedNetProfitUsd_PreEsp x = get_feature x ''estimatedNetProfitUsd_PreEsp'' np_nan"

definition A2_estimatedGasCostUsd_Initial :: "pyval \<Rightarrow> pyval" where
  "A2_estimatedGasCostUsd_Initial x = get_feature x ''estimatedGasCostUsd_Initial'' np_nan"

definition A3_initialProfitToGasRatio :: "pyval list \<Rightarrow> error + f64 series" where
  "A3_initialProfitToGasRatio xs =
     (case series_apply A1_estimatedNetProfitUsd_PreEsp xs of
        Inl e \<Rightarrow> Inl e
      | Inr A1 \<Rightarrow>
         (case series_apply A2_estimatedGasCostUsd_Initial xs of
            Inl e \<Rightarrow> Inl e
          | Inr A2 \<Rightarrow>
             (case add_scalar A2 eps_1e6 of
                Inl e \<Rightarrow> Inl e
              | Inr denom \<Rightarrow> truediv A1 denom)))"

section \<open>Feature extraction\<close>



















text \<open>The columns whose declared default is zero: the flags and the membership tests.\<close>

definition zero_default_columns :: "string list" where
  "zero_default_columns =
     [''A5_usesFlashLoan'', ''A10_tokenIsCore_Token0'', ''A10_tokenIsCore_Token1'',
      ''A10_tokenIsCore_Token2'', ''A14_isCrossDexArbitrage'', ''D33_isNewTokenPair_Opportunistic'']"

definition declared_default :: "string \<Rightarrow> pyval" where
  "declared_default c = (if c \<in> set zero_default_columns then PInt 0 else np_nan)"


section \<open>Feature matrix\<close>

text \<open>
  A column of a DataFrame has a dtype and its cells: float64 (NaN is the missing value),
  int64, bool, or object. An object column holds text, \<open>None\<close> being its missing value.
  A frame lists its columns by name, in order.
\<close>

datatype column = FloatCol "f64 list" | IntCol "int list" | BoolCol "bool list"
  | ObjCol "string option list"

type_synonym frame = "(string \<times> column) list"

fun isnull_any :: "column \<Rightarrow> bool" where
  "isnull_any (FloatCol xs) = (NaN \<in> set xs)"
| "isnull_any (ObjCol xs) = (None \<in> set xs)"
| "isnull_any c = False"

fun isnull_all :: "column \<Rightarrow> bool" where
  "isnull_all (FloatCol xs) = (\<forall>x \<in> set xs. x = NaN)"
| "isnull_all (ObjCol xs) = (\<forall>x \<in> set xs. x = None)"
| "isnull_all (IntCol xs) = (xs = [])"
| "isnull_all (BoolCol xs) = (xs = [])"

text \<open>\<open>pd.api.types.is_numeric_dtype\<close>: the number dtypes and bool.\<close>

fun is_numeric_dtype :: "column \<Rightarrow> bool" where
  "is_numeric_dtype (ObjCol xs) = False"
| "is_numeric_dtype c = True"

text \<open>
  Sorting puts \<open>-inf\<close> first, then the finite values in order, then \<open>+inf\<close>, then NaN.
\<close>

fun f64_key :: "f64 \<Rightarrow> nat \<times> rat" where
  "f64_key (Infty False) = (0, 0)"
| "f64_key (Num r) = (1, r)"
| "f64_key (Infty True) = (2, 0)"
| "f64_key NaN = (3, 0)"

text \<open>
  \<open>Series.median\<close> skips the missing cells; the median of an even number of values is the
  mean of the two middle ones, and the median of no value is NaN.
\<close>

definition median :: "f64 list \<Rightarrow> f64" where
  "median xs = (let s = sort_key f64_key (filter (\<lambda>v. v \<noteq> NaN) xs); n = length s in
     if n = 0 then NaN
     else if odd n then s ! (n div 2)
     else fdiv (fadd (s ! (n div 2 - 1)) (s ! (n div 2))) (Num 2))"

definition fillna :: "'a \<Rightarrow> 'a \<Rightarrow> 'a list \<Rightarrow> 'a list" where
  "fillna missing v xs = map (\<lambda>x. if x = missing then v else x) xs"

text \<open>
  \<open>Series.mode\<close> skips the missing cells and returns the most frequent values, sorted.
\<close>

definition dropna :: "'a option list \<Rightarrow> 'a list" where
  "dropna xs = concat (map (\<lambda>x. case x of None \<Rightarrow> [] | Some v \<Rightarrow> [v]) xs)"

definition mode :: "string option list \<Rightarrow> string list" where
  "mode xs = (let vs = dropna xs;
                  m = fold max (map (count_list vs) vs) 0
              in sort (filter (\<lambda>v. count_list vs v = m) (remdups vs)))"

text \<open>
  Lines 145 to 156 of \<open>generate_features\<close>. Only a float64 column (numeric) and an object
  column (not numeric) can hold a missing value.
\<close>

fun fill_numeric :: "column \<Rightarrow> column" where
  "fill_numeric (FloatCol xs) = (let median_val = median xs in FloatCol (fillna NaN median_val xs))"
| "fill_numeric c = c"

fun fill_object :: "column \<Rightarrow> column" where
  "fill_object (ObjCol xs) =
     (let mode_val = mode xs;
          fill_val = (if mode_val \<noteq> [] then mode_val ! 0 else ''missing'')
      in ObjCol (fillna None (Some fill_val) xs))"
| "fill_object c = c"

definition impute_column :: "column \<Rightarrow> column" where
  "impute_column col =
     (if isnull_any col then
        (if is_numeric_dtype col then fill_numeric col else fill_object col)
      else col)"

definition impute_missing :: "frame \<Rightarrow> frame" where
  "impute_missing features_df = map (\<lambda>(c, col). (c, impute_column col)) features_df"

section \<open>Scaling\<close>

text \<open>
  \<open>scale_features\<close> of \<open>data_preprocessor.py\<close>. The scalers are scikit-learn's. What the
  model takes from the library is collected in a record: the statistics a scaler fits on
  one column, \<open>MinMaxScaler\<close>'s transform of one cell, and Python's \<open>float\<close> on text
  (\<open>None\<close> where it raises). \<open>StandardScaler.transform\<close> subtracts the fitted mean and
  divides by the fitted scale, cell by cell. Both scalers refuse an array without rows
  and an array with an infinite cell, and a fitted scaler refuses an array whose number
  of columns differs from the one it was fitted on.
\<close>

record sklearn =
  standard_fit :: "f64 list \<Rightarrow> f64 \<times> f64"
  minmax_fit :: "f64 list \<Rightarrow> f64 \<times> f64"
  minmax_cell :: "f64 \<times> f64 \<Rightarrow> f64 \<Rightarrow> f64"
  float_of_str :: "string \<Rightarrow> f64 option"

text \<open>
  A fitted scaler holds its attributes, one entry per column it was fitted on:
  \<open>mean_\<close> and \<open>scale_\<close>, or \<open>data_min_\<close> and \<open>data_max_\<close>.
\<close>

datatype scaler =
    StandardScaler "f64 list" "f64 list"
  | MinMaxScaler "f64 list" "f64 list"

datatype scaler_kind = Standard | MinMax

definition bind_err :: "error + 'a \<Rightarrow> ('a \<Rightarrow> error + 'b) \<Rightarrow> error + 'b" where
  "bind_err r f = (case r of Inl e \<Rightarrow> Inl e | Inr v \<Rightarrow> f v)"

fun is_inf :: "f64 \<Rightarrow> bool" where
  "is_inf (Infty s) = True"
| "is_inf x = False"

definition check_array :: "f64 list list \<Rightarrow> error + unit" where
  "check_array cols =
     (case cols of
        [] \<Rightarrow> Inl (ValueError ''Found array with 0 feature(s)'')
      | xs # rest \<Rightarrow>
          if xs = [] then Inl (ValueError ''Found array with 0 sample(s)'')
          else if \<exists>ys \<in> set cols. \<exists>y \<in> set ys. is_inf y
            then Inl (ValueError ''Input contains infinity'')
          else Inr ())"

definition fit :: "sklearn \<Rightarrow> scaler_kind \<Rightarrow> f64 list list \<Rightarrow> error + scaler" where
  "fit sk kind cols =
     bind_err (check_array cols) (\<lambda>u.
       case kind of
         Standard \<Rightarrow>
           Inr (StandardScaler (map (\<lambda>xs. fst (standard_fit sk xs)) cols)
                               (map (\<lambda>xs. snd (standard_fit sk xs)) cols))
       | MinMax \<Rightarrow>
           Inr (MinMaxScaler (map (\<lambda>xs. fst (minmax_fit sk xs)) cols)
                             (map (\<lambda>xs. snd (minmax_fit sk xs)) cols)))"

definition n_features_in :: "scaler \<Rightarrow> nat" where
  "n_features_in sc = (case sc of StandardScaler m s \<Rightarrow> length m | MinMaxScaler lo hi \<Rightarrow> length lo)"

definition transform :: "sklearn \<Rightarrow> scaler \<Rightarrow> f64 list list \<Rightarrow> error + f64 list list" where
  "transform sk sc cols =
     bind_err (check_array cols) (\<lambda>u.
       if length cols \<noteq> n_features_in sc
         then Inl (ValueError ''X has a different number of features than the scaler'')
       else case sc of
         StandardScaler m s \<Rightarrow>
           Inr (map (\<lambda>(xs, mean, scale). map (\<lambda>x. fdiv (fsub x mean) scale) xs)
                    (zip cols (zip m s)))
       | MinMaxScaler lo hi \<Rightarrow>
           Inr (map (\<lambda>(xs, range). map (minmax_cell sk range) xs) (zip cols (zip lo hi))))"

text \<open>\<open>select_dtypes(include=np.number)\<close>: the number dtypes, without bool and object.\<close>

fun is_number_dtype :: "column \<Rightarrow> bool" where
  "is_number_dtype (FloatCol xs) = True"
| "is_number_dtype (IntCol xs) = True"
| "is_number_dtype c = False"

definition select_dtypes_number :: "frame \<Rightarrow> string list" where
  "select_dtypes_number X = map fst (filter (\<lambda>(c, col). is_number_dtype col) X)"

text \<open>\<open>X[numeric_cols]\<close>; a frame has one column of each name.\<close>

definition getitem_cols :: "frame \<Rightarrow> string list \<Rightarrow> error + column list" where
  "getitem_cols X names =
     collect (map (\<lambda>c. case map_of X c of None \<Rightarrow> Inl (KeyError c) | Some col \<Rightarrow> Inr col) names)"

fun astype_float64 :: "sklearn \<Rightarrow> column \<Rightarrow> error + f64 list" where
  "astype_float64 sk (FloatCol xs) = Inr xs"
| "astype_float64 sk (IntCol xs) = Inr (map (\<lambda>i. round64 (of_int i)) xs)"
| "astype_float64 sk (BoolCol xs) = Inr (map (\<lambda>b. Num (if b then 1 else 0)) xs)"
| "astype_float64 sk (ObjCol xs) =
     collect (map (\<lambda>x. case x of
                None \<Rightarrow> Inr NaN
              | Some s \<Rightarrow> (case float_of_str sk s of
                    None \<Rightarrow> Inl (ValueError ''could not convert string to float'')
                  | Some v \<Rightarrow> Inr v)) xs)"

definition numeric_float64 :: "sklearn \<Rightarrow> frame \<Rightarrow> string list \<Rightarrow> error + f64 list list" where
  "numeric_float64 sk X names =
     bind_err (getitem_cols X names) (\<lambda>cols. collect (map (astype_float64 sk) cols))"

text \<open>\<open>X_scaled_df[numeric_cols] = ...\<close>: the named columns are replaced, in place.\<close>

definition setitem_cols :: "frame \<Rightarrow> string list \<Rightarrow> f64 list list \<Rightarrow> frame" where
  "setitem_cols X names cols =
     map (\<lambda>(c, col). case map_of (zip names cols) c of None \<Rightarrow> (c, col) | Some xs \<Rightarrow> (c, FloatCol xs)) X"

text \<open>
  Lines 133 to 140: the fill of one numeric training column before the fit.
\<close>

definition prefit_fill :: "f64 list \<Rightarrow> f64 list" where
  "prefit_fill xs =
     (if \<forall>x \<in> set xs. x = NaN then map (\<lambda>x. Num 0) xs
      else if NaN \<in> set xs then (let median_val = median xs in fillna NaN median_val xs)
      else xs)"

text \<open>Lines 148, 151 and 154: \<open>scaler.transform(X[numeric_cols].astype(np.float64).fillna(0))\<close>.\<close>

definition transform_filled :: "sklearn \<Rightarrow> scaler \<Rightarrow> frame \<Rightarrow> string list \<Rightarrow> error + frame" where
  "transform_filled sk sc X numeric_cols =
     bind_err (numeric_float64 sk X numeric_cols) (\<lambda>cols.
     bind_err (transform sk sc (map (fillna NaN (Num 0)) cols)) (\<lambda>scaled.
       Inr (setitem_cols X numeric_cols scaled)))"

definition transform_filled_opt :: "sklearn \<Rightarrow> scaler \<Rightarrow> frame option \<Rightarrow> string list \<Rightarrow> error + frame option" where
  "transform_filled_opt sk sc X numeric_cols =
     (case X of None \<Rightarrow> Inr None
      | Some X' \<Rightarrow> bind_err (transform_filled sk sc X' numeric_cols) (\<lambda>scaled. Inr (Some scaled)))"

definition new_scaler :: "sklearn \<Rightarrow> frame \<Rightarrow> string list \<Rightarrow> string \<Rightarrow> error + scaler" where
  "new_scaler sk X_train numeric_cols scaler_type =
     bind_err (if scaler_type = ''standard'' then Inr Standard
               else if scaler_type = ''minmax'' then Inr MinMax
               else Inl (ValueError ''scaler_type must be standard or minmax''))
       (\<lambda>kind.
     bind_err (numeric_float64 sk X_train numeric_cols) (\<lambda>train_numeric_data.
       fit sk kind (map prefit_fill train_numeric_data)))"

definition scale_features ::
  "sklearn \<Rightarrow> frame \<Rightarrow> frame option \<Rightarrow> frame option \<Rightarrow> string \<Rightarrow> scaler option
     \<Rightarrow> error + (frame \<times> frame option \<times> frame option \<times> scaler option)" where
  "scale_features sk X_train X_test X_val scaler_type existing_scaler =
     (let numeric_cols = select_dtypes_number X_train in
      if numeric_cols = [] then Inr (X_train, X_test, X_val, None)
      else
        bind_err (case existing_scaler of
                    Some sc \<Rightarrow> Inr sc
                  | None \<Rightarrow> new_scaler sk X_train numeric_cols scaler_type) (\<lambda>sc.
        bind_err (transform_filled sk sc X_train numeric_cols) (\<lambda>X_train_scaled_df.
        bind_err (transform_filled_opt sk sc X_test numeric_cols) (\<lambda>X_test_scaled_df.
        bind_err (transform_filled_opt sk sc X_val numeric_cols) (\<lambda>X_val_scaled_df.
          Inr (X_train_scaled_df, X_test_scaled_df, X_val_scaled_df, Some sc))))))"

section \<open>Model trainer\<close>

text \<open>
  \<open>ModelTrainer.__init__\<close> of \<open>train.py\<close>. The model objects are those of Keras, XGBoost
  and LightGBM; their constructors are parameters and may raise.
\<close>

record 'm backends =
  build_neural_network :: "(string \<times> pyval) list \<Rightarrow> error + 'm"
  XGBClassifier :: "int option \<Rightarrow> (string \<times> pyval) list \<Rightarrow> error + 'm"
  LGBMClassifier :: "int option \<Rightarrow> (string \<times> pyval) list \<Rightarrow> error + 'm"

record 'm ModelTrainer =
  model_type :: string
  model_params :: "(string \<times> pyval) list"
  random_state :: "int option"
  model :: "'m option"

text \<open>Python's truth value of an object.\<close>

fun truthy :: "pyval \<Rightarrow> bool" where
  "truthy PNone = False"
| "truthy (PBool b) = b"
| "truthy (PInt i) = (i \<noteq> 0)"
| "truthy (PFloat f) = (f \<noteq> Num 0)"
| "truthy (PStr s) = (s \<noteq> [])"
| "truthy (PDict kvs) = (kvs \<noteq> [])"

definition ModelTrainer_init ::
  "'m backends \<Rightarrow> string \<Rightarrow> (string \<times> pyval) list option \<Rightarrow> int option \<Rightarrow> error + 'm ModelTrainer" where
  "ModelTrainer_init be mtype params rstate =
     (let self = \<lparr>model_type = mtype,
                  model_params = (case params of None \<Rightarrow> [] | Some p \<Rightarrow> p),
                  random_state = rstate,
                  model = None\<rparr>
      in if model_type self = ''neural_network'' then
           (if truthy (get_feature (PDict (model_params self)) ''input_dim'' PNone)
            then bind_err (build_neural_network be (model_params self))
                   (\<lambda>m. Inr (self\<lparr>model := Some m\<rparr>))
            else Inr self)
         else if model_type self = ''xgboost'' then
           (let self = (if ''use_label_encoder'' \<notin> set (map fst (model_params self))
                        then self\<lparr>model_params := model_params self @ [(''use_label_encoder'', PBool False)]\<rparr>
                        else self)
            in bind_err (XGBClassifier be (random_state self) (model_params self))
                 (\<lambda>m. Inr (self\<lparr>model := Some m\<rparr>)))
         else if model_type self = ''lightgbm'' then
           bind_err (LGBMClassifier be (random_state self) (model_params self))
             (\<lambda>m. Inr (self\<lparr>model := Some m\<rparr>))
         else Inl (ValueError (''Unsupported model_type: '' @ model_type self)))"

section \<open>Scaler parameters in the metadata\<close>

text \<open>
  Lines 224 to 242 of \<open>run_pipeline\<close>. \<open>dict(zip(keys, values))\<close> keeps, for a key that
  occurs twice, the value paired with its last occurrence.
\<close>

definition dict_zip :: "'k list \<Rightarrow> 'v list \<Rightarrow> ('k \<rightharpoonup> 'v)" where
  "dict_zip ks vs = map_of (rev (zip ks vs))"

record scaler_metadata =
  scaler_type :: "string option"
  scaler_params :: "(string \<times> (string \<rightharpoonup> f64)) list"
  numeric_features_scaled :: "string list option"

definition export_scaler_params :: "frame \<Rightarrow> scaler option \<Rightarrow> scaler_metadata" where
  "export_scaler_params X_features_df sc =
     (case sc of
        None \<Rightarrow> \<lparr>scaler_type = None, scaler_params = [], numeric_features_scaled = None\<rparr>
      | Some s \<Rightarrow>
         (let numeric_cols_scaled =
                map fst (filter (\<lambda>(c, col). is_numeric_dtype col) X_features_df)
          in case s of
               StandardScaler m sd \<Rightarrow>
                 \<lparr>scaler_type = Some ''standard'',
                  scaler_params = [(''mean'', dict_zip numeric_cols_scaled m),
                                   (''scale'', dict_zip numeric_cols_scaled sd)],
                  numeric_features_scaled = Some numeric_cols_scaled\<rparr>
             | MinMaxScaler lo hi \<Rightarrow>
                 \<lparr>scaler_type = Some ''minmax'',
                  scaler_params = [(''min'', dict_zip numeric_cols_scaled lo),
                                   (''max'', dict_zip numeric_cols_scaled hi)],
                  numeric_features_scaled = Some numeric_cols_scaled\<rparr>))"

section \<open>Partitioning\<close>

text \<open>
  \<open>split_data\<close> of \<open>data_preprocessor.py\<close>. For the split, a DataFrame or a Series is its
  index (one label per row) and its rows, in order.
\<close>

record 'a pandas =
  index :: "int list"
  rows :: "'a list"

definition reset_index :: "'a pandas \<Rightarrow> 'a pandas" where
  "reset_index d = d\<lparr>index := map int [0..<length (rows d)]\<rparr>"

text \<open>\<open>d.iloc[ps]\<close>: the rows at the positions \<open>ps\<close>, with their index labels.\<close>

definition iloc :: "'a pandas \<Rightarrow> nat list \<Rightarrow> error + 'a pandas" where
  "iloc d ps =
     (if \<forall>p \<in> set ps. p < length (rows d) \<and> p < length (index d)
      then Inr \<lparr>index = map (\<lambda>p. index d ! p) ps, rows = map (\<lambda>p. rows d ! p) ps\<rparr>
      else Inl IndexError)"

text \<open>
  The random source of a split: the generator seeded with \<open>random_state\<close>, or, when
  \<open>random_state\<close> is \<open>None\<close>, the process-wide generator in whatever state it is.
\<close>

datatype rng = Seeded int | Global nat

definition check_random_state :: "int option \<Rightarrow> nat \<Rightarrow> rng" where
  "check_random_state rstate global_state =
     (case rstate of Some seed \<Rightarrow> Seeded seed | None \<Rightarrow> Global global_state)"

text \<open>
  scikit-learn's \<open>train_test_split\<close> checks that its arrays have the same number of rows,
  computes the positions of the training and of the test rows, and takes these rows of
  every array. The computation of the positions (the validation of \<open>test_size\<close>, the
  shuffle and the stratification) is the parameter \<open>splitter\<close>: from the random source,
  the number of rows, \<open>test_size\<close> and the stratification labels, it raises or returns
  the training positions and the test positions.
\<close>

type_synonym 'l splitter = "rng \<Rightarrow> nat \<Rightarrow> rat \<Rightarrow> 'l list option \<Rightarrow> error + (nat list \<times> nat list)"

definition train_test_split ::
  "'l splitter \<Rightarrow> 'r pandas \<Rightarrow> 'l pandas \<Rightarrow> rat \<Rightarrow> rng \<Rightarrow> 'l pandas option
     \<Rightarrow> error + ('r pandas \<times> 'r pandas \<times> 'l pandas \<times> 'l pandas)" where
  "train_test_split splitter X y test_size gen stratify =
     (if length (rows X) \<noteq> length (rows y)
      then Inl (ValueError ''Found input variables with inconsistent numbers of samples'')
      else
        bind_err (splitter gen (length (rows X)) test_size (map_option rows stratify)) (\<lambda>(train, test).
        bind_err (iloc X train) (\<lambda>X_train.
        bind_err (iloc X test) (\<lambda>X_test.
        bind_err (iloc y train) (\<lambda>y_train.
        bind_err (iloc y test) (\<lambda>y_test.
          Inr (X_train, X_test, y_train, y_test)))))))"

datatype ('r, 'l) partitions =
    TrainTest "'r pandas" "'r pandas" "'l pandas" "'l pandas"
  | TrainValTest "'r pandas" "'r pandas" "'r pandas" "'l pandas" "'l pandas" "'l pandas"

text \<open>
  \<open>global_state k\<close> is the state of the process-wide generator at the \<open>k\<close>-th split of the
  call; it is read only when \<open>random_state\<close> is \<open>None\<close>.
\<close>

definition split_data ::
  "'l splitter \<Rightarrow> 'r pandas \<Rightarrow> 'l pandas \<Rightarrow> rat \<Rightarrow> rat option \<Rightarrow> int option \<Rightarrow> 'l pandas option
     \<Rightarrow> (nat \<Rightarrow> nat) \<Rightarrow> error + ('r, 'l) partitions" where
  "split_data splitter X0 y0 test_size validation_size rstate stratify global_state =
     (let X = (if index X0 \<noteq> index y0 then reset_index X0 else X0);
          y = (if index X0 \<noteq> index y0 then reset_index y0 else y0);
          stratify_array =
            (case stratify of
               None \<Rightarrow> None
             | Some s \<Rightarrow> if index s \<noteq> index y then Some (reset_index s) else Some s)
      in bind_err (train_test_split splitter X y test_size
                     (check_random_state rstate (global_state 0)) stratify_array)
           (\<lambda>(X_train_val, X_test, y_train_val, y_test).
              case validation_size of
                Some v \<Rightarrow>
                  if 0 < v then
                    (let stratify_val_array =
                           (if stratify_array \<noteq> None then Some y_train_val else None)
                     in bind_err (train_test_split splitter X_train_val y_train_val v
                                    (check_random_state rstate (global_state 1)) stratify_val_array)
                          (\<lambda>(X_train, X_val, y_train, y_val).
                             Inr (TrainValTest X_train X_val X_test y_train y_val y_test)))
                  else Inr (TrainTest X_train_val X_test y_train_val y_test)
              | None \<Rightarrow> Inr (TrainTest X_train_val X_test y_train_val y_test)))"

text \<open>
  What scikit-learn documents of the positions it returns for a fractional \<open>test_size\<close>:
  the test positions and the training positions together are the positions
  \<open>0, ..., n - 1\<close>, each once, and the number of test positions is the float64 product
  \<open>test_size * n\<close> rounded up.
\<close>

definition n_test :: "rat \<Rightarrow> nat \<Rightarrow> nat" where
  "n_test test_size n = (case round64 (test_size * of_nat n) of Num p \<Rightarrow> nat \<lceil>p\<rceil> | _ \<Rightarrow> 0)"

definition splits_as_documented :: "'l splitter \<Rightarrow> bool" where
  "splits_as_documented splitter =
     (\<forall>gen n test_size labels train test.
        splitter gen n test_size labels = Inr (train, test) \<longrightarrow>
          distinct (train @ test) \<and> set (train @ test) = {0..<n}
          \<and> length test = n_test test_size n)"

text \<open>
  The schema of a frame: its column names with their dtypes. The partitions of one
  feature matrix have the schema of that matrix.
\<close>

datatype dtype = Float64 | Int64 | Bool | Object

fun dtype_of :: "column \<Rightarrow> dtype" where
  "dtype_of (FloatCol xs) = Float64"
| "dtype_of (IntCol xs) = Int64"
| "dtype_of (BoolCol xs) = Bool"
| "dtype_of (ObjCol xs) = Object"

definition schema :: "frame \<Rightarrow> (string \<times> dtype) list" where
  "schema X = map (\<lambda>(c, col). (c, dtype_of col)) X"

section \<open>Ingestion and the pipeline's first stage\<close>

text \<open>
  What a run does to the outside is a list of effects, in order: lines printed, the
  directory made when the module is loaded, and files written.
\<close>

datatype effect = Print string | Makedirs string | WriteFile string

text \<open>
  \<open>fetch_from_firestore\<close> of \<open>firestore_ingestor.py\<close>. The Firestore client is the
  parameter \<open>stream\<close>: given the limit, it raises or yields the documents, each a dict.
  \<open>pd.json_normalize\<close> is the parameter \<open>json_normalize\<close>. A raw frame is the list of its
  records, each a list of (column, value); \<open>pd.DataFrame()\<close> is the empty list.
\<close>

type_synonym raw_frame = "(string \<times> pyval) list list"

definition ensure_feature_map :: "pyval \<Rightarrow> pyval" where
  "ensure_feature_map doc_data =
     (case doc_data of
        PDict kvs \<Rightarrow>
          (case map_of kvs ''espInputFeatures'' of
             Some (PDict fs) \<Rightarrow> PDict kvs
           | Some v \<Rightarrow> PDict (map (\<lambda>(k, w). if k = ''espInputFeatures'' then (k, PDict []) else (k, w)) kvs)
           | None \<Rightarrow> PDict (kvs @ [(''espInputFeatures'', PDict [])]))
      | v \<Rightarrow> v)"

definition fetch_from_firestore ::
  "(nat option \<Rightarrow> error + pyval list) \<Rightarrow> (pyval list \<Rightarrow> raw_frame) \<Rightarrow> nat option
     \<Rightarrow> effect list \<times> raw_frame" where
  "fetch_from_firestore stream json_normalize limit =
     (case stream (case limit of Some l \<Rightarrow> if l \<noteq> 0 then Some l else None | None \<Rightarrow> None) of
        Inl e \<Rightarrow>
          ([Print ''Attempting to fetch data from Firestore collection'',
            Print ''Error fetching data from Firestore''], [])
      | Inr docs \<Rightarrow>
          (let data_list = map ensure_feature_map docs in
           if data_list = [] then
             ([Print ''Attempting to fetch data from Firestore collection'',
               Print ''No documents found in the collection.''], [])
           else
             ([Print ''Attempting to fetch data from Firestore collection'',
               Print ''Successfully fetched and normalized documents into a DataFrame.''],
              json_normalize data_list)))"

text \<open>\<open>DataFrame.empty\<close>: no row, or no column.\<close>

definition empty_frame :: "raw_frame \<Rightarrow> bool" where
  "empty_frame raw_df = (raw_df = [] \<or> (\<forall>r \<in> set raw_df. r = []))"

text \<open>
  Loading \<open>main_training_pipeline.py\<close> makes the output directory. \<open>run_pipeline\<close> prints
  its configuration, fetches, and returns at once when the fetched frame is empty.
  Stages 2 to 7 (labeling, feature engineering, preprocessing, training, evaluation and
  serialization, which writes the model, the scaler and the metadata) are the parameter
  \<open>later_stages\<close>: the effects they have on the fetched frame.
\<close>

definition module_load :: "effect list" where
  "module_load = [Makedirs ''trained_models'']"

definition run_pipeline ::
  "(nat option \<Rightarrow> error + pyval list) \<Rightarrow> (pyval list \<Rightarrow> raw_frame) \<Rightarrow> (raw_frame \<Rightarrow> effect list)
     \<Rightarrow> string \<Rightarrow> effect list" where
  "run_pipeline stream json_normalize later_stages config_path =
     (let (fetch_effects, raw_df) = fetch_from_firestore stream json_normalize (Some 10000) in
      [Print (''Starting ML training pipeline with config path (unused for now): '' @ config_path),
       Print ''Using hardcoded configuration'',
       Print ''--- Stage 1: Data Ingestion ---'']
      @ fetch_effects
      @ (if empty_frame raw_df
         then [Print ''No data fetched (mock response was empty). Exiting.'']
         else [Print ''Fetched records (mock).'', Print ''Raw data columns (mock)'']
              @ later_stages raw_df))"

fun is_write :: "effect \<Rightarrow> bool" where
  "is_write (WriteFile path) = True"
| "is_write e = False"

section \<open>Stand-ins for the libraries\<close>

text \<open>
  Concrete library parameters, used where a statement is evaluated on an example: a
  scaler fit that takes the median as the centre and 2 as the scale, model
  constructors that return a token, and a splitter that rotates the positions by the
  seed and takes the first ones as the test positions.
\<close>

definition sklearn_standin :: sklearn where
  "sklearn_standin =
     \<lparr>standard_fit = (\<lambda>xs. (median xs, Num 2)),
      minmax_fit = (\<lambda>xs. (Num 0, Num 1)),
      minmax_cell = (\<lambda>range x. x),
      float_of_str = (\<lambda>s. None)\<rparr>"

definition backends_standin :: "unit backends" where
  "backends_standin =
     \<lparr>build_neural_network = (\<lambda>params. Inr ()),
      XGBClassifier = (\<lambda>rstate params. Inr ()),
      LGBMClassifier = (\<lambda>rstate params. Inr ())\<rparr>"

definition splitter_standin :: "'l splitter" where
  "splitter_standin gen n test_size labels =
     (let k = n_test test_size n;
          offset = (case gen of Seeded seed \<Rightarrow> nat (seed mod int n) | Global state \<Rightarrow> state mod n);
          perm = rotate offset [0..<n]
      in if 0 < k \<and> k < n then Inr (drop k perm, take k perm)
         else Inl (ValueError ''the resulting train set or test set will be empty''))"

section \<open>Properties of float64 rounding\<close>

lemma pow2_pos: "0 < pow2 e"
  by (simp add: pow2_def)

lemma pow2_strict_mono: "a < b \<Longrightarrow> pow2 a < pow2 b"
  unfolding pow2_def by (rule power_int_strict_increasing) simp_all

lemma pow2_mono: "a \<le> b \<Longrightarrow> pow2 a \<le> pow2 b"
  unfolding pow2_def by (rule power_int_increasing) simp_all

lemma pow2_le_imp_less: "pow2 a \<le> x \<Longrightarrow> x < pow2 b \<Longrightarrow> a < b"
proof (rule ccontr)
  assume "pow2 a \<le> x" "x < pow2 b" "\<not> a < b"
  then have "pow2 b \<le> pow2 a" by (intro pow2_mono) simp
  with \<open>pow2 a \<le> x\<close> \<open>x < pow2 b\<close> show False by simp
qed

lemma pow2_diff: "pow2 (a - b) = pow2 a / pow2 b"
  by (simp add: pow2_def power_int_diff)

lemma pow2_nat: "pow2 (int n) = 2 ^ n"
  by (simp add: pow2_def)

text \<open>The exponent of a non-zero number is not above its magnitude.\<close>

lemma expo_lower:
  assumes "x \<noteq> 0"
  shows "pow2 (expo x) \<le> \<bar>x\<bar>"
proof -
  obtain a b where q: "quotient_of \<bar>x\<bar> = (a, b)" by (cases "quotient_of \<bar>x\<bar>")
  then have b: "0 < b" by (rule quotient_of_denom_pos)
  from q have x: "\<bar>x\<bar> = of_int a / of_int b" by (rule quotient_of_div)
  from assms have "0 < \<bar>x\<bar>" by simp
  with x b have a: "0 < a" by (simp add: zero_less_divide_iff)
  define k where "k = bitlen a - bitlen b"
  have e: "expo x = (if pow2 k \<le> \<bar>x\<bar> then k else k - 1)"
    by (simp add: expo_def q k_def)
  show ?thesis
  proof (cases "pow2 k \<le> \<bar>x\<bar>")
    case True
    with e show ?thesis by simp
  next
    case False
    from bitlen_bounds [OF a] have la: "2 ^ nat (bitlen a - 1) \<le> a" by simp
    from bitlen_bounds [OF b] have lb: "b < 2 ^ nat (bitlen b)" by simp
    have ba: "1 \<le> bitlen a" using a by (simp add: bitlen_alt_def)
    have bb: "0 \<le> bitlen b" by (rule bitlen_nonneg)
    have "pow2 (k - 1) = pow2 (bitlen a - 1) / pow2 (bitlen b)"
      by (simp add: k_def pow2_diff [symmetric] algebra_simps)
    also have "pow2 (bitlen a - 1) = 2 ^ nat (bitlen a - 1)"
      using ba pow2_nat [of "nat (bitlen a - 1)"] by simp
    also have "pow2 (bitlen b) = 2 ^ nat (bitlen b)"
      using bb pow2_nat [of "nat (bitlen b)"] by simp
    finally have p: "pow2 (k - 1) = 2 ^ nat (bitlen a - 1) / 2 ^ nat (bitlen b)" .
    have "(2::rat) ^ nat (bitlen a - 1) \<le> of_int a"
      using la by (metis of_int_le_iff of_int_numeral of_int_power)
    moreover have "(of_int b :: rat) \<le> 2 ^ nat (bitlen b)"
      using lb by (metis less_imp_le of_int_le_iff of_int_numeral of_int_power)
    moreover have "(0::rat) < of_int b" using b by simp
    moreover have "(0::rat) \<le> of_int a" using a by simp
    ultimately have "(2::rat) ^ nat (bitlen a - 1) / 2 ^ nat (bitlen b) \<le> of_int a / of_int b"
      by (intro frac_le) simp_all
    with p x have "pow2 (k - 1) \<le> \<bar>x\<bar>" by simp
    with e False show ?thesis by simp
  qed
qed

lemma expo_less:
  assumes "x \<noteq> 0" and "\<bar>x\<bar> < pow2 b"
  shows "expo x < b"
  using expo_lower [OF assms(1)] assms(2) by (rule pow2_le_imp_less)

lemma round_half_even_error: "\<bar>of_int (round_half_even y) - y\<bar> \<le> 1 / 2"
proof -
  define f where "f = \<lfloor>y\<rfloor>"
  define d where "d = y - of_int f"
  have d0: "0 \<le> d" and d1: "d < 1"
    unfolding d_def f_def by linarith+
  have y: "y = of_int f + d" by (simp add: d_def)
  have r: "round_half_even y =
      (if d < 1 / 2 then f else if 1 / 2 < d then f + 1 else if even f then f else f + 1)"
    by (simp add: round_half_even_def f_def d_def Let_def)
  show ?thesis
  proof (cases "d < 1 / 2")
    case True
    with r have "of_int (round_half_even y) - y = - d" by (simp add: y)
    with d0 True show ?thesis by simp
  next
    case False
    show ?thesis
    proof (cases "1 / 2 < d")
      case True
      with r False have "of_int (round_half_even y) - y = 1 - d" by (simp add: y)
      with d1 True show ?thesis by simp
    next
      case half: False
      with False have dh: "d = 1 / 2" by simp
      from r False half have "round_half_even y = f \<or> round_half_even y = f + 1"
        by simp
      then have "of_int (round_half_even y) - y = - d \<or> of_int (round_half_even y) - y = 1 - d"
        by (auto simp: y)
      with dh show ?thesis by auto
    qed
  qed
qed

lemma quantum_pos: "0 < quantum x"
  by (simp add: quantum_def pow2_pos)

lemma quantum_le:
  assumes "x \<noteq> 0" and "\<bar>x\<bar> < pow2 b" and "- 1022 < b"
  shows "quantum x \<le> pow2 (b - 53)"
proof -
  from expo_less [OF assms(1,2)] assms(3) have "max (expo x) (- 1022) - 52 \<le> b - 53"
    by simp
  then show ?thesis unfolding quantum_def by (rule pow2_mono)
qed

text \<open>
  Rounding moves a number of magnitude below \<open>2 ^ b\<close> by at most half a unit in the last
  place, \<open>2 ^ (b - 54)\<close>, and does not overflow.
\<close>

lemma round64_error:
  assumes "\<bar>x\<bar> < pow2 b" and "- 1022 < b" and "b \<le> 1023"
  shows "\<exists>r. round64 x = Num r \<and> \<bar>r - x\<bar> \<le> pow2 (b - 54)"
proof (cases "x = 0")
  case True
  then show ?thesis using pow2_pos [of "b - 54"] by (simp add: round64_def)
next
  case False
  define q where "q = quantum x"
  define r where "r = of_int (round_half_even (x / q)) * q"
  have q0: "0 < q" by (simp add: q_def quantum_pos)
  have ql: "q \<le> pow2 (b - 53)" unfolding q_def by (rule quantum_le [OF False assms(1,2)])
  have "r - x = (of_int (round_half_even (x / q)) - x / q) * q"
    using q0 by (simp add: r_def algebra_simps)
  then have "\<bar>r - x\<bar> = \<bar>of_int (round_half_even (x / q)) - x / q\<bar> * q"
    using q0 by (simp add: abs_mult)
  also have "\<dots> \<le> 1 / 2 * q"
    using round_half_even_error [of "x / q"] q0 by (intro mult_right_mono) simp_all
  also have "\<dots> \<le> 1 / 2 * pow2 (b - 53)"
    using ql by simp
  also have "\<dots> = pow2 (b - 54)"
  proof -
    have "pow2 (b - 53) = pow2 (b - 54 + 1)" by simp
    also have "\<dots> = pow2 (b - 54) * 2"
      unfolding pow2_def by (subst power_int_add) simp_all
    finally show ?thesis by simp
  qed
  finally have err: "\<bar>r - x\<bar> \<le> pow2 (b - 54)" .
  have "\<bar>r\<bar> \<le> \<bar>x\<bar> + \<bar>r - x\<bar>" by simp
  also have "\<dots> < pow2 b + pow2 (b - 54)" using assms(1) err by simp
  also have "\<dots> \<le> pow2 b + pow2 b"
    using pow2_mono [of "b - 54" b] by simp
  also have "\<dots> = pow2 (b + 1)"
    unfolding pow2_def by (subst power_int_add) simp_all
  also have "\<dots> \<le> pow2 1024"
    using assms(3) by (intro pow2_mono) simp
  finally have "\<not> pow2 1024 \<le> \<bar>r\<bar>" by simp
  then have "round64 x = Num r"
    using False by (simp add: round64_def r_def q_def Let_def)
  with err show ?thesis by blast
qed

lemma eps_1e6_value: "eps_1e6 = Num (4722366482869645 / 4722366482869645213696)"
  by code_simp

lemma fadd_zero_eps: "fadd (Num 0) eps_1e6 = eps_1e6"
  by code_simp

lemma fadd_absorbs_eps: "fadd (Num 17179869184) eps_1e6 = Num 17179869184"
  by code_simp

lemma fadd_eps_above:
  assumes "\<bar>r\<bar> \<le> 2 ^ 34 - 1"
  shows "\<exists>d. fadd (Num r) eps_1e6 = Num d \<and> r < d"
proof -
  define e :: rat where "e = 4722366482869645 / 4722366482869645213696"
  have e: "eps_1e6 = Num e" by (simp add: eps_1e6_value e_def)
  have e_lo: "pow2 (- 20) < e" and e_hi: "e < 1"
    by (simp_all add: pow2_def e_def)
  have "\<bar>r + e\<bar> \<le> \<bar>r\<bar> + \<bar>e\<bar>" by (rule abs_triangle_ineq)
  also have "\<dots> < 2 ^ 34" using assms e_hi e_lo pow2_pos [of "- 20"] by simp
  also have "\<dots> = pow2 34" by (simp add: pow2_def)
  finally have "\<bar>r + e\<bar> < pow2 34" .
  from round64_error [OF this] obtain d where
    d: "round64 (r + e) = Num d" and err: "\<bar>d - (r + e)\<bar> \<le> pow2 (34 - 54)"
    by auto
  from err have "r + e - d \<le> pow2 (- 20)" by simp
  with e_lo have "r < d" by simp
  moreover have "fadd (Num r) eps_1e6 = Num d"
    unfolding e using d by simp
  ultimately show ?thesis by blast
qed

lemma eps_1e6_pos: "\<exists>e. eps_1e6 = Num e \<and> 0 < e"
proof -
  have "(0::rat) < 4722366482869645 / 4722366482869645213696" by simp
  with eps_1e6_value show ?thesis by blast
qed

section \<open>Properties of column arithmetic\<close>


lemma collect_Inr: "collect (map Inr vs) = Inr vs"
  by (induction vs) simp_all

lemma collect_Inr_D: "collect rs = Inr vs \<Longrightarrow> rs = map Inr vs"
proof (induction rs arbitrary: vs)
  case Nil
  then show ?case by simp
next
  case (Cons r rs)
  show ?case
  proof (cases r)
    case (Inl e)
    with Cons.prems show ?thesis by simp
  next
    case (Inr v)
    show ?thesis
    proof (cases "collect rs")
      case (Inl e)
      with Cons.prems Inr show ?thesis by simp
    next
      case inr: (Inr ws)
      with Cons.prems Inr have "vs = v # ws" by simp
      moreover from inr have "rs = map Inr ws" by (rule Cons.IH)
      ultimately show ?thesis using Inr by simp
    qed
  qed
qed

lemma collect_Inr_iff: "collect rs = Inr vs \<longleftrightarrow> rs = map Inr vs"
  using collect_Inr_D collect_Inr by blast

lemma collect_Inl_D: "collect rs = Inl e \<Longrightarrow> \<exists>i < length rs. rs ! i = Inl e"
proof (induction rs)
  case Nil
  then show ?case by simp
next
  case (Cons r rs)
  show ?case
  proof (cases r)
    case (Inl e')
    with Cons.prems have "e' = e" by simp
    with Inl have "(r # rs) ! 0 = Inl e" by simp
    then show ?thesis by blast
  next
    case (Inr v)
    with Cons.prems have "collect rs = Inl e"
      by (cases "collect rs") simp_all
    then obtain i where "i < length rs" "rs ! i = Inl e"
      using Cons.IH by blast
    then have "Suc i < length (r # rs)" "(r # rs) ! Suc i = Inl e" by simp_all
    then show ?thesis by blast
  qed
qed

lemma round64_not_NaN: "round64 x \<noteq> NaN"
  by (simp add: round64_def Let_def)

lemma fdiv_NaN_right: "fdiv x NaN = NaN"
  by (cases x) simp_all

lemma fadd_eps_not_NaN: "g \<noteq> NaN \<Longrightarrow> fadd g eps_1e6 \<noteq> NaN"
  by (cases g) (simp_all add: eps_1e6_value round64_not_NaN del: round64_def)

lemma fadd_eps_zero:
  assumes "fadd g eps_1e6 = Num 0"
  shows "\<exists>r. g = Num r \<and> r \<noteq> 0"
proof (cases g)
  case (Num r)
  have "r \<noteq> 0"
  proof
    assume "r = 0"
    with assms Num have z: "eps_1e6 = Num 0" by (simp only: fadd_zero_eps)
    from eps_1e6_pos obtain e where e: "eps_1e6 = Num e" "0 < e" by blast
    from z e(1) have "Num e = Num 0" by (simp only:)
    then have "e = 0" by simp
    with e(2) show False by simp
  qed
  with Num show ?thesis by blast
next
  case (Infty s)
  with assms show ?thesis by (simp add: eps_1e6_value)
next
  case NaN
  with assms show ?thesis by simp
qed

lemma py_float_error: "py_float v = Inl e \<Longrightarrow> e = TypeError \<or> e = OverflowError"
  by (cases v) (auto split: f64.splits)

lemma py_float_NaN: "py_float v = Inr NaN \<Longrightarrow> v = PFloat NaN"
  by (cases v) (auto split: f64.splits if_splits)

lemma py_float_isnull: "isnull v \<Longrightarrow> py_float v = Inr p \<Longrightarrow> p = NaN"
  by (cases v) simp_all

lemma py_float_not_isnull: "\<not> isnull v \<Longrightarrow> py_float v = Inr p \<Longrightarrow> p \<noteq> NaN"
  by (cases v) (auto split: f64.splits if_splits)

lemma isnull_float64_cell: "isnull v \<Longrightarrow> float64_cell v = NaN"
  by (cases v) simp_all

text \<open>The scan raises nothing but \<open>OverflowError\<close>.\<close>

lemma scan_error: "scan s vs = Inl e \<Longrightarrow> e = OverflowError"
  by (induction s vs rule: scan.induct) (auto split: f64.splits if_splits simp: Let_def)

text \<open>
  Every cell of a column that did not get the object dtype is \<open>None\<close> or a number that
  Python converts to the float64 stored for it.
\<close>

lemma scan_cells:
  "scan s vs = Inr t \<Longrightarrow> \<not> seen_object t \<Longrightarrow> v \<in> set vs \<Longrightarrow>
     v = PNone \<or> py_float v = Inr (float64_cell v)"
  by (induction s vs rule: scan.induct) (auto split: f64.splits if_splits simp: Let_def)

lemma scan_floats:
  "\<forall>v \<in> set vs. is_float v \<Longrightarrow>
     \<exists>t. scan s vs = Inr t \<and> seen_object t = seen_object s \<and> seen_bool t = seen_bool s
        \<and> (seen_float t \<or> seen_int t \<or> seen_nan t) =
            (seen_float s \<or> seen_int s \<or> seen_nan s \<or> vs \<noteq> [])"
proof (induction vs arbitrary: s)
  case Nil
  then show ?case by simp
next
  case (Cons v vs)
  then obtain f where v: "v = PFloat f" by (cases v) simp_all
  from Cons.prems have rest: "\<forall>v \<in> set vs. is_float v" by simp
  let ?s = "if f = NaN then s\<lparr>seen_nan := True\<rparr> else s\<lparr>seen_float := True\<rparr>"
  from Cons.IH [OF rest, of ?s] obtain t where
    t: "scan ?s vs = Inr t" "seen_object t = seen_object ?s" "seen_bool t = seen_bool ?s"
       "(seen_float t \<or> seen_int t \<or> seen_nan t) =
        (seen_float ?s \<or> seen_int ?s \<or> seen_nan ?s \<or> vs \<noteq> [])"
    by blast
  have "scan s (v # vs) = Inr t" using t(1) by (simp add: v)
  moreover have "seen_object t = seen_object s" using t(2) by simp
  moreover have "seen_bool t = seen_bool s" using t(3) by simp
  moreover have "(seen_float t \<or> seen_int t \<or> seen_nan t) =
      (seen_float s \<or> seen_int s \<or> seen_nan s \<or> v # vs \<noteq> [])"
    using t(4) by (cases "f = NaN") simp_all
  ultimately show ?case by blast
qed

lemma maybe_convert_objects_error: "maybe_convert_objects vs = Inl e \<Longrightarrow> e = OverflowError"
  using scan_error [of nothing_seen vs e]
  by (auto simp: maybe_convert_objects_def split: sum.splits)

lemma maybe_convert_objects_Numeric:
  assumes "maybe_convert_objects vs = Inr (NumericSeries fs)"
  shows "fs = map float64_cell vs"
    and "v \<in> set vs \<Longrightarrow> v = PNone \<or> py_float v = Inr (float64_cell v)"
proof -
  from assms obtain t where t: "scan nothing_seen vs = Inr t" "is_numeric_seen t"
    and fs: "fs = map float64_cell vs"
    by (auto simp: maybe_convert_objects_def split: sum.splits if_splits)
  from fs show "fs = map float64_cell vs" .
  from t(2) have "\<not> seen_object t" by (simp add: is_numeric_seen_def)
  with t(1) show "v \<in> set vs \<Longrightarrow> v = PNone \<or> py_float v = Inr (float64_cell v)"
    by (rule scan_cells)
qed

lemma maybe_convert_objects_Object:
  "maybe_convert_objects vs = Inr (ObjectSeries cs) \<Longrightarrow> cs = vs"
  by (auto simp: maybe_convert_objects_def split: sum.splits if_splits)

lemma maybe_convert_objects_floats:
  assumes "vs \<noteq> []" and "\<forall>v \<in> set vs. is_float v"
  shows "maybe_convert_objects vs = Inr (NumericSeries (map float64_cell vs))"
proof -
  from scan_floats [OF assms(2), of nothing_seen] obtain t where
    t: "scan nothing_seen vs = Inr t" "seen_object t = seen_object nothing_seen"
       "seen_bool t = seen_bool nothing_seen"
       "(seen_float t \<or> seen_int t \<or> seen_nan t) =
        (seen_float nothing_seen \<or> seen_int nothing_seen \<or> seen_nan nothing_seen \<or> vs \<noteq> [])"
    by blast
  from t(2-4) assms(1) have "is_numeric_seen t"
    by (simp add: is_numeric_seen_def nothing_seen_def)
  with t(1) show ?thesis by (simp add: maybe_convert_objects_def)
qed

text \<open>
  What a column holds, as float64, after the dtype has been chosen: a missing cell is NaN,
  any other cell is the float that Python makes of it.
\<close>

lemma series_cell:
  assumes "maybe_convert_objects vs = Inr A" and "i < length vs"
  shows "length (series_objects A) = length vs"
    and "isnull (vs ! i) \<Longrightarrow> isnull (series_objects A ! i)"
    and "\<not> isnull (vs ! i) \<Longrightarrow> series_objects A ! i = vs ! i \<or>
           (py_float (vs ! i) = Inr (float64_cell (vs ! i)) \<and>
            series_objects A ! i = PFloat (float64_cell (vs ! i)))"
proof -
  show "length (series_objects A) = length vs"
  proof (cases A)
    case (NumericSeries fs)
    with assms(1) have "fs = map float64_cell vs" by (simp add: maybe_convert_objects_Numeric(1))
    with NumericSeries show ?thesis by simp
  next
    case (ObjectSeries cs)
    with assms(1) have "cs = vs" by (simp add: maybe_convert_objects_Object)
    with ObjectSeries show ?thesis by simp
  qed
  show "isnull (series_objects A ! i)" if "isnull (vs ! i)"
  proof (cases A)
    case (NumericSeries fs)
    with assms(1) have "fs = map float64_cell vs" by (simp add: maybe_convert_objects_Numeric(1))
    with NumericSeries assms(2) that show ?thesis by (simp add: isnull_float64_cell)
  next
    case (ObjectSeries cs)
    with assms(1) have "cs = vs" by (simp add: maybe_convert_objects_Object)
    with ObjectSeries that show ?thesis by simp
  qed
  show "series_objects A ! i = vs ! i \<or>
           (py_float (vs ! i) = Inr (float64_cell (vs ! i)) \<and>
            series_objects A ! i = PFloat (float64_cell (vs ! i)))" if "\<not> isnull (vs ! i)"
  proof (cases A)
    case (NumericSeries fs)
    with assms(1) have m: "maybe_convert_objects vs = Inr (NumericSeries fs)" by simp
    then have fs: "fs = map float64_cell vs" by (rule maybe_convert_objects_Numeric(1))
    from assms(2) have "vs ! i \<in> set vs" by simp
    from maybe_convert_objects_Numeric(2) [OF m this] that
    have "py_float (vs ! i) = Inr (float64_cell (vs ! i))" by auto
    with NumericSeries fs assms(2) show ?thesis by simp
  next
    case (ObjectSeries cs)
    with assms(1) have "cs = vs" by (simp add: maybe_convert_objects_Object)
    with ObjectSeries show ?thesis by simp
  qed
qed

lemma na_arithmetic_op_Inr:
  assumes "na_arithmetic_op rs = Inr ys"
  shows "length ys = length rs"
    and "i < length rs \<Longrightarrow> snd (rs ! i) = Inr (ys ! i) \<or> (fst (rs ! i) \<and> ys ! i = NaN)"
proof -
  let ?masked = "map (\<lambda>(missing, r). if missing then Inr NaN else r) rs"
  have both: "length ys = length rs \<and>
      (i < length rs \<longrightarrow> snd (rs ! i) = Inr (ys ! i) \<or> (fst (rs ! i) \<and> ys ! i = NaN))"
  proof (cases "collect (map snd rs) = Inl TypeError")
    case True
    with assms have "collect ?masked = Inr ys" by (simp add: na_arithmetic_op_def)
    then have m: "?masked = map Inr ys" by (rule collect_Inr_D)
    then have "length ?masked = length (map Inr ys)" by simp
    then have len: "length ys = length rs" by simp
    have "snd (rs ! i) = Inr (ys ! i) \<or> (fst (rs ! i) \<and> ys ! i = NaN)" if i: "i < length rs"
    proof -
      from m have "?masked ! i = map Inr ys ! i" by simp
      with i len have "(case rs ! i of (missing, r) \<Rightarrow> if missing then Inr NaN else r) = Inr (ys ! i)"
        by simp
      then show ?thesis by (cases "rs ! i") (auto split: if_splits)
    qed
    with len show ?thesis by blast
  next
    case False
    with assms have "collect (map snd rs) = Inr ys" by (simp add: na_arithmetic_op_def)
    then have m: "map snd rs = map Inr ys" by (rule collect_Inr_D)
    then have "length (map snd rs) = length (map Inr ys)" by simp
    then have len: "length ys = length rs" by simp
    have "snd (rs ! i) = Inr (ys ! i)" if i: "i < length rs"
    proof -
      from m have "map snd rs ! i = map Inr ys ! i" by simp
      with i len show ?thesis by simp
    qed
    with len show ?thesis by blast
  qed
  from both show "length ys = length rs" by blast
  from both show "i < length rs \<Longrightarrow> snd (rs ! i) = Inr (ys ! i) \<or> (fst (rs ! i) \<and> ys ! i = NaN)"
    by blast
qed

lemma na_arithmetic_op_Inl:
  assumes "na_arithmetic_op rs = Inl e"
  shows "\<exists>i < length rs. snd (rs ! i) = Inl e"
proof (cases "collect (map snd rs) = Inl TypeError")
  case True
  let ?masked = "map (\<lambda>(missing, r). if missing then Inr NaN else r) rs"
  from True assms have "collect ?masked = Inl e" by (simp add: na_arithmetic_op_def)
  then obtain i where i: "i < length ?masked" "?masked ! i = Inl e"
    using collect_Inl_D by blast
  then have "(case rs ! i of (missing, r) \<Rightarrow> if missing then Inr NaN else r) = Inl e" by simp
  then have "snd (rs ! i) = Inl e" by (cases "rs ! i") (auto split: if_splits)
  with i(1) show ?thesis by auto
next
  case False
  with assms have "collect (map snd rs) = Inl e" by (simp add: na_arithmetic_op_def)
  then obtain i where "i < length (map snd rs)" "map snd rs ! i = Inl e"
    using collect_Inl_D by blast
  then show ?thesis by auto
qed

text \<open>
  The sum column: NaN where the cell is missing, and the float64 sum of the cell's float
  value and the scalar elsewhere.
\<close>

lemma add_scalar_cell:
  assumes conv: "maybe_convert_objects vs = Inr A"
    and sum: "add_scalar A y = Inr d"
  shows "length (series_cells d) = length vs"
    and "i < length vs \<Longrightarrow> isnull (vs ! i) \<Longrightarrow> series_cells d ! i = NaN"
    and "i < length vs \<Longrightarrow> \<not> isnull (vs ! i) \<Longrightarrow>
           \<exists>g. py_float (vs ! i) = Inr g \<and> series_cells d ! i = fadd g y"
proof -
  have all: "length (series_cells d) = length vs \<and>
      (i < length vs \<longrightarrow> (isnull (vs ! i) \<longrightarrow> series_cells d ! i = NaN) \<and>
         (\<not> isnull (vs ! i) \<longrightarrow> (\<exists>g. py_float (vs ! i) = Inr g \<and> series_cells d ! i = fadd g y)))"
  proof (cases A)
    case (NumericSeries gs)
    with conv have m: "maybe_convert_objects vs = Inr (NumericSeries gs)" by simp
    then have gs: "gs = map float64_cell vs" by (rule maybe_convert_objects_Numeric(1))
    from sum NumericSeries have d: "series_cells d = map (\<lambda>g. fadd g y) gs" by auto
    have "series_cells d ! i = NaN" if "i < length vs" "isnull (vs ! i)"
      using that by (simp add: d gs isnull_float64_cell)
    moreover have "\<exists>g. py_float (vs ! i) = Inr g \<and> series_cells d ! i = fadd g y"
      if i: "i < length vs" and n: "\<not> isnull (vs ! i)"
    proof -
      from i have "vs ! i \<in> set vs" by simp
      from maybe_convert_objects_Numeric(2) [OF m this] n
      have "py_float (vs ! i) = Inr (float64_cell (vs ! i))" by auto
      moreover have "series_cells d ! i = fadd (float64_cell (vs ! i)) y"
        using i by (simp add: d gs)
      ultimately show ?thesis by blast
    qed
    moreover have "length (series_cells d) = length vs" by (simp add: d gs)
    ultimately show ?thesis by blast
  next
    case (ObjectSeries cs)
    with conv have cs: "cs = vs" by (simp add: maybe_convert_objects_Object)
    let ?rs = "map (\<lambda>v. (isnull v, py_add v y)) vs"
    from sum ObjectSeries cs obtain ds where
      na: "na_arithmetic_op ?rs = Inr ds" and d: "series_cells d = ds"
      by (auto split: sum.splits)
    from na_arithmetic_op_Inr(1) [OF na] have len: "length ds = length vs" by simp
    have cell: "py_add (vs ! i) y = Inr (ds ! i) \<or> (isnull (vs ! i) \<and> ds ! i = NaN)"
      if "i < length vs"
      using na_arithmetic_op_Inr(2) [OF na, of i] that by simp
    have "series_cells d ! i = NaN" if i: "i < length vs" and n: "isnull (vs ! i)"
    proof -
      from cell [OF i] show ?thesis
      proof
        assume "py_add (vs ! i) y = Inr (ds ! i)"
        then obtain g where g: "py_float (vs ! i) = Inr g" "ds ! i = fadd g y"
          by (auto simp: py_add_def split: sum.splits)
        from py_float_isnull [OF n g(1)] g(2) d show ?thesis by simp
      next
        assume "isnull (vs ! i) \<and> ds ! i = NaN"
        with d show ?thesis by simp
      qed
    qed
    moreover have "\<exists>g. py_float (vs ! i) = Inr g \<and> series_cells d ! i = fadd g y"
      if i: "i < length vs" and n: "\<not> isnull (vs ! i)"
    proof -
      from cell [OF i] n have "py_add (vs ! i) y = Inr (ds ! i)" by blast
      then show ?thesis by (auto simp: py_add_def d split: sum.splits)
    qed
    ultimately show ?thesis using len d by blast
  qed
  from all show "length (series_cells d) = length vs" by blast
  from all show "i < length vs \<Longrightarrow> isnull (vs ! i) \<Longrightarrow> series_cells d ! i = NaN" by blast
  from all show "i < length vs \<Longrightarrow> \<not> isnull (vs ! i) \<Longrightarrow>
           \<exists>g. py_float (vs ! i) = Inr g \<and> series_cells d ! i = fadd g y" by blast
qed

lemma add_scalar_error:
  assumes "add_scalar A y = Inl e"
  shows "e = TypeError \<or> e = OverflowError"
proof (cases A)
  case (NumericSeries gs)
  with assms show ?thesis by simp
next
  case (ObjectSeries vs)
  with assms have "na_arithmetic_op (map (\<lambda>v. (isnull v, py_add v y)) vs) = Inl e"
    by (auto split: sum.splits)
  from na_arithmetic_op_Inl [OF this] obtain i where "i < length vs" "py_add (vs ! i) y = Inl e"
    by auto
  then have "py_float (vs ! i) = Inl e" by (auto simp: py_add_def split: sum.splits)
  then show ?thesis by (rule py_float_error)
qed

text \<open>
  The quotient column: NaN where the dividend or the divisor is missing, and the float64
  quotient of the dividend's float value by the divisor elsewhere.
\<close>

lemma truediv_cell:
  assumes conv: "maybe_convert_objects vs = Inr A"
    and len: "length (series_cells d) = length vs"
    and quot: "truediv A d = Inr q"
  shows "length (series_cells q) = length vs"
    and "i < length vs \<Longrightarrow> isnull (vs ! i) \<or> series_cells d ! i = NaN \<Longrightarrow> series_cells q ! i = NaN"
    and "i < length vs \<Longrightarrow> \<not> isnull (vs ! i) \<Longrightarrow> series_cells d ! i \<noteq> NaN \<Longrightarrow>
           \<exists>p. py_float (vs ! i) = Inr p \<and> series_cells q ! i = fdiv p (series_cells d ! i)"
proof -
  let ?ds = "series_cells d"
  let ?os = "series_objects A"
  let ?rs = "map2 (\<lambda>x y. (isnull x \<or> y = NaN, py_truediv x y)) ?os ?ds"
  have all: "length (series_cells q) = length vs \<and>
      (i < length vs \<longrightarrow>
         (isnull (vs ! i) \<or> ?ds ! i = NaN \<longrightarrow> series_cells q ! i = NaN) \<and>
         (\<not> isnull (vs ! i) \<and> ?ds ! i \<noteq> NaN \<longrightarrow>
            (\<exists>p. py_float (vs ! i) = Inr p \<and> series_cells q ! i = fdiv p (?ds ! i))))"
  proof (cases "\<exists>ps ds. A = NumericSeries ps \<and> d = NumericSeries ds")
    case True
    then obtain ps ds where A: "A = NumericSeries ps" and d: "d = NumericSeries ds" by blast
    from conv A have m: "maybe_convert_objects vs = Inr (NumericSeries ps)" by simp
    then have ps: "ps = map float64_cell vs" by (rule maybe_convert_objects_Numeric(1))
    from len d have lds: "length ds = length vs" by simp
    from quot A d have q: "series_cells q = map2 fdiv ps ds" by auto
    have cell: "series_cells q ! i = fdiv (float64_cell (vs ! i)) (ds ! i)" if "i < length vs"
      using that lds by (simp add: q ps)
    have "series_cells q ! i = NaN" if i: "i < length vs" and n: "isnull (vs ! i) \<or> ?ds ! i = NaN"
      using n cell [OF i] d by (auto simp: isnull_float64_cell fdiv_NaN_right)
    moreover have "\<exists>p. py_float (vs ! i) = Inr p \<and> series_cells q ! i = fdiv p (?ds ! i)"
      if i: "i < length vs" and n: "\<not> isnull (vs ! i)"
    proof -
      from i have "vs ! i \<in> set vs" by simp
      from maybe_convert_objects_Numeric(2) [OF m this] n
      have "py_float (vs ! i) = Inr (float64_cell (vs ! i))" by auto
      with cell [OF i] d show ?thesis by simp
    qed
    moreover have "length (series_cells q) = length vs" using lds by (simp add: q ps)
    ultimately show ?thesis by blast
  next
    case False
    then have "truediv A d =
        (case na_arithmetic_op ?rs of Inl e \<Rightarrow> Inl e | Inr qs \<Rightarrow> Inr (ObjectSeries qs))"
      by (cases A; cases d) simp_all
    with quot obtain qs where na: "na_arithmetic_op ?rs = Inr qs" and q: "series_cells q = qs"
      by (auto split: sum.splits)
    have los: "length ?os = length vs"
      by (cases "vs = []") (use conv series_cell(1) [OF conv, of 0] in \<open>auto simp: maybe_convert_objects_def nothing_seen_def is_numeric_seen_def\<close>)
    from na_arithmetic_op_Inr(1) [OF na] los len have lq: "length qs = length vs" by simp
    have cell: "py_truediv (?os ! i) (?ds ! i) = Inr (qs ! i) \<or>
        ((isnull (?os ! i) \<or> ?ds ! i = NaN) \<and> qs ! i = NaN)" if "i < length vs"
      using na_arithmetic_op_Inr(2) [OF na, of i] that los len by simp
    have "series_cells q ! i = NaN" if i: "i < length vs" and n: "isnull (vs ! i) \<or> ?ds ! i = NaN"
    proof -
      from cell [OF i] show ?thesis
      proof
        assume c: "py_truediv (?os ! i) (?ds ! i) = Inr (qs ! i)"
        then obtain p where p: "py_float (?os ! i) = Inr p" "qs ! i = fdiv p (?ds ! i)"
          by (auto simp: py_truediv_def split: sum.splits if_splits)
        from n show ?thesis
        proof
          assume "isnull (vs ! i)"
          then have "isnull (?os ! i)" by (rule series_cell(2) [OF conv i])
          from py_float_isnull [OF this p(1)] p(2) q show ?thesis by simp
        next
          assume "?ds ! i = NaN"
          with p(2) q show ?thesis by (simp add: fdiv_NaN_right)
        qed
      next
        assume "(isnull (?os ! i) \<or> ?ds ! i = NaN) \<and> qs ! i = NaN"
        with q show ?thesis by simp
      qed
    qed
    moreover have "\<exists>p. py_float (vs ! i) = Inr p \<and> series_cells q ! i = fdiv p (?ds ! i)"
      if i: "i < length vs" and n: "\<not> isnull (vs ! i)" and dn: "?ds ! i \<noteq> NaN"
    proof -
      from series_cell(3) [OF conv i n] show ?thesis
      proof
        assume same: "?os ! i = vs ! i"
        with cell [OF i] n dn have "py_truediv (vs ! i) (?ds ! i) = Inr (qs ! i)" by auto
        then show ?thesis by (auto simp: py_truediv_def q split: sum.splits if_splits)
      next
        assume num: "py_float (vs ! i) = Inr (float64_cell (vs ! i)) \<and>
            ?os ! i = PFloat (float64_cell (vs ! i))"
        from py_float_not_isnull [OF n] num have nn: "float64_cell (vs ! i) \<noteq> NaN" by blast
        with cell [OF i] num dn
        have "py_truediv (PFloat (float64_cell (vs ! i))) (?ds ! i) = Inr (qs ! i)" by auto
        then have "qs ! i = fdiv (float64_cell (vs ! i)) (?ds ! i)"
          by (auto simp: py_truediv_def split: if_splits)
        with num q show ?thesis by auto
      qed
    qed
    ultimately show ?thesis using lq q by blast
  qed
  from all show "length (series_cells q) = length vs" by blast
  from all show "i < length vs \<Longrightarrow> isnull (vs ! i) \<or> series_cells d ! i = NaN \<Longrightarrow>
      series_cells q ! i = NaN" by blast
  from all show "i < length vs \<Longrightarrow> \<not> isnull (vs ! i) \<Longrightarrow> series_cells d ! i \<noteq> NaN \<Longrightarrow>
           \<exists>p. py_float (vs ! i) = Inr p \<and> series_cells q ! i = fdiv p (series_cells d ! i)" by blast
qed

text \<open>A division by zero is raised only for a cell whose divisor is zero.\<close>

lemma truediv_ZeroDivisionError:
  assumes "truediv A d = Inl ZeroDivisionError"
  shows "\<exists>i < length (series_cells d). series_cells d ! i = Num 0"
proof -
  let ?rs = "map2 (\<lambda>x y. (isnull x \<or> y = NaN, py_truediv x y)) (series_objects A) (series_cells d)"
  have "\<not> (\<exists>ps ds. A = NumericSeries ps \<and> d = NumericSeries ds)"
    using assms by auto
  then have "truediv A d =
      (case na_arithmetic_op ?rs of Inl e \<Rightarrow> Inl e | Inr qs \<Rightarrow> Inr (ObjectSeries qs))"
    by (cases A; cases d) simp_all
  with assms have "na_arithmetic_op ?rs = Inl ZeroDivisionError"
    by (auto split: sum.splits)
  from na_arithmetic_op_Inl [OF this] obtain i where
    i: "i < length ?rs" and r: "snd (?rs ! i) = Inl ZeroDivisionError"
    by blast
  from i have i1: "i < length (series_objects A)" and i2: "i < length (series_cells d)"
    by simp_all
  from r i1 i2 have "py_truediv (series_objects A ! i) (series_cells d ! i) = Inl ZeroDivisionError"
    by simp
  then have "series_cells d ! i = Num 0"
    using py_float_error [of "series_objects A ! i" ZeroDivisionError]
    by (auto simp: py_truediv_def split: sum.splits if_splits)
  with i2 show ?thesis by blast
qed

text \<open>
  Line 50, cell by cell: the ratio is missing where the profit or the gas cost is missing,
  and elsewhere it is the float64 quotient of the profit by the float64 sum of the gas
  cost and \<open>1e-6\<close>.
\<close>

lemma A3_cells:
  assumes "A3_initialProfitToGasRatio xs = Inr ratio"
  shows "length (series_cells ratio) = length xs"
    and "i < length xs \<Longrightarrow>
           isnull (A1_estimatedNetProfitUsd_PreEsp (xs ! i)) \<or>
           isnull (A2_estimatedGasCostUsd_Initial (xs ! i)) \<Longrightarrow>
           series_cells ratio ! i = NaN"
    and "i < length xs \<Longrightarrow>
           \<not> isnull (A1_estimatedNetProfitUsd_PreEsp (xs ! i)) \<Longrightarrow>
           \<not> isnull (A2_estimatedGasCostUsd_Initial (xs ! i)) \<Longrightarrow>
           \<exists>p g. py_float (A1_estimatedNetProfitUsd_PreEsp (xs ! i)) = Inr p
               \<and> py_float (A2_estimatedGasCostUsd_Initial (xs ! i)) = Inr g
               \<and> series_cells ratio ! i = fdiv p (fadd g eps_1e6)"
proof -
  let ?a1 = "map A1_estimatedNetProfitUsd_PreEsp xs"
  let ?a2 = "map A2_estimatedGasCostUsd_Initial xs"
  from assms obtain A1 A2 d where
    c1: "maybe_convert_objects ?a1 = Inr A1" and c2: "maybe_convert_objects ?a2 = Inr A2"
    and sum: "add_scalar A2 eps_1e6 = Inr d" and quot: "truediv A1 d = Inr ratio"
    by (auto simp: A3_initialProfitToGasRatio_def series_apply_def split: sum.splits)
  from add_scalar_cell(1) [OF c2 sum] have ld: "length (series_cells d) = length ?a1" by simp
  from truediv_cell(1) [OF c1 ld quot] show "length (series_cells ratio) = length xs" by simp
  show "series_cells ratio ! i = NaN"
    if i: "i < length xs"
      and n: "isnull (A1_estimatedNetProfitUsd_PreEsp (xs ! i)) \<or>
              isnull (A2_estimatedGasCostUsd_Initial (xs ! i))"
  proof -
    from i have i1: "i < length ?a1" and i2: "i < length ?a2" by simp_all
    have "isnull (?a1 ! i) \<or> series_cells d ! i = NaN"
    proof (cases "isnull (A1_estimatedNetProfitUsd_PreEsp (xs ! i))")
      case True
      with i show ?thesis by simp
    next
      case False
      with n i have "isnull (?a2 ! i)" by simp
      from add_scalar_cell(2) [OF c2 sum i2 this] show ?thesis by simp
    qed
    from truediv_cell(2) [OF c1 ld quot i1 this] show ?thesis .
  qed
  show "\<exists>p g. py_float (A1_estimatedNetProfitUsd_PreEsp (xs ! i)) = Inr p
            \<and> py_float (A2_estimatedGasCostUsd_Initial (xs ! i)) = Inr g
            \<and> series_cells ratio ! i = fdiv p (fadd g eps_1e6)"
    if i: "i < length xs"
      and n1: "\<not> isnull (A1_estimatedNetProfitUsd_PreEsp (xs ! i))"
      and n2: "\<not> isnull (A2_estimatedGasCostUsd_Initial (xs ! i))"
  proof -
    from i have i1: "i < length ?a1" and i2: "i < length ?a2" by simp_all
    from n1 i have m1: "\<not> isnull (?a1 ! i)" by simp
    from n2 i have m2: "\<not> isnull (?a2 ! i)" by simp
    from add_scalar_cell(3) [OF c2 sum i2 m2] obtain g where
      g: "py_float (?a2 ! i) = Inr g" "series_cells d ! i = fadd g eps_1e6"
      by blast
    from py_float_not_isnull [OF m2 g(1)] have "g \<noteq> NaN" .
    then have "series_cells d ! i \<noteq> NaN" using g(2) by (simp add: fadd_eps_not_NaN)
    from truediv_cell(3) [OF c1 ld quot i1 m1 this] obtain p where
      p: "py_float (?a1 ! i) = Inr p" "series_cells ratio ! i = fdiv p (series_cells d ! i)"
      by blast
    from p g i show ?thesis by simp
  qed
qed

text \<open>
  When line 50 raises \<open>ZeroDivisionError\<close>, some record has a gas cost that is a number
  other than zero, whose sum with \<open>1e-6\<close> is zero.
\<close>

lemma A3_ZeroDivisionError:
  assumes "A3_initialProfitToGasRatio xs = Inl ZeroDivisionError"
  shows "\<exists>i < length xs. \<exists>r. py_float (A2_estimatedGasCostUsd_Initial (xs ! i)) = Inr (Num r)
           \<and> r \<noteq> 0 \<and> fadd (Num r) eps_1e6 = Num 0"
proof -
  let ?a1 = "map A1_estimatedNetProfitUsd_PreEsp xs"
  let ?a2 = "map A2_estimatedGasCostUsd_Initial xs"
  have ne: "ZeroDivisionError \<noteq> OverflowError" "ZeroDivisionError \<noteq> TypeError" by simp_all
  from assms maybe_convert_objects_error [of ?a1 ZeroDivisionError] obtain A1 where
    c1: "maybe_convert_objects ?a1 = Inr A1"
    by (cases "maybe_convert_objects ?a1")
       (auto simp: A3_initialProfitToGasRatio_def series_apply_def)
  from assms c1 maybe_convert_objects_error [of ?a2 ZeroDivisionError] obtain A2 where
    c2: "maybe_convert_objects ?a2 = Inr A2"
    by (cases "maybe_convert_objects ?a2")
       (auto simp: A3_initialProfitToGasRatio_def series_apply_def)
  from assms c1 c2 add_scalar_error [of A2 eps_1e6 ZeroDivisionError] obtain d where
    sum: "add_scalar A2 eps_1e6 = Inr d"
    by (cases "add_scalar A2 eps_1e6")
       (auto simp: A3_initialProfitToGasRatio_def series_apply_def)
  from assms c1 c2 sum have "truediv A1 d = Inl ZeroDivisionError"
    by (simp add: A3_initialProfitToGasRatio_def series_apply_def)
  from truediv_ZeroDivisionError [OF this] obtain i where
    i: "i < length (series_cells d)" and z: "series_cells d ! i = Num 0"
    by blast
  from add_scalar_cell(1) [OF c2 sum] i have i2: "i < length ?a2" by simp
  have "\<not> isnull (?a2 ! i)"
  proof
    assume "isnull (?a2 ! i)"
    from add_scalar_cell(2) [OF c2 sum i2 this] z show False by simp
  qed
  from add_scalar_cell(3) [OF c2 sum i2 this] z obtain g where
    g: "py_float (?a2 ! i) = Inr g" "fadd g eps_1e6 = Num 0"
    by auto
  from fadd_eps_zero [OF g(2)] obtain r where "g = Num r" "r \<noteq> 0" by blast
  with g i2 have "py_float (A2_estimatedGasCostUsd_Initial (xs ! i)) = Inr (Num r)
      \<and> r \<noteq> 0 \<and> fadd (Num r) eps_1e6 = Num 0"
    by simp
  with i2 show ?thesis by auto
qed

text \<open>Line 50 returns, with a float64 column, when every profit and gas cost is a float.\<close>

lemma A3_floats:
  assumes "xs \<noteq> []"
    and "\<forall>x \<in> set xs. is_float (A1_estimatedNetProfitUsd_PreEsp x)
                      \<and> is_float (A2_estimatedGasCostUsd_Initial x)"
  shows "A3_initialProfitToGasRatio xs =
           Inr (NumericSeries (map (\<lambda>x. fdiv (float64_cell (A1_estimatedNetProfitUsd_PreEsp x))
                                       (fadd (float64_cell (A2_estimatedGasCostUsd_Initial x)) eps_1e6)) xs))"
proof -
  let ?a1 = "map A1_estimatedNetProfitUsd_PreEsp xs"
  let ?a2 = "map A2_estimatedGasCostUsd_Initial xs"
  from assms have "?a1 \<noteq> []" "\<forall>v \<in> set ?a1. is_float v" by simp_all
  then have c1: "maybe_convert_objects ?a1 = Inr (NumericSeries (map float64_cell ?a1))"
    by (rule maybe_convert_objects_floats)
  from assms have "?a2 \<noteq> []" "\<forall>v \<in> set ?a2. is_float v" by simp_all
  then have c2: "maybe_convert_objects ?a2 = Inr (NumericSeries (map float64_cell ?a2))"
    by (rule maybe_convert_objects_floats)
  have "map2 fdiv (map float64_cell ?a1) (map (\<lambda>g. fadd g eps_1e6) (map float64_cell ?a2)) =
      map (\<lambda>x. fdiv (float64_cell (A1_estimatedNetProfitUsd_PreEsp x))
                 (fadd (float64_cell (A2_estimatedGasCostUsd_Initial x)) eps_1e6)) xs"
    by (induction xs) simp_all
  then show ?thesis
    by (simp add: A3_initialProfitToGasRatio_def series_apply_def c1 c2 del: fadd.simps fdiv.simps)
qed


section \<open>Properties of feature extraction\<close>










lemma declared_default_ratio: "declared_default ''A3_initialProfitToGasRatio'' = np_nan"
  by (simp add: declared_default_def zero_default_columns_def)






















section \<open>Properties of the post-assembly imputation\<close>

lemma set_dropna: "set (dropna xs) = {v. Some v \<in> set xs}"
  by (induction xs) (auto simp: dropna_def split: option.splits)

lemma count_dropna: "count_list (dropna xs) v = count_list xs (Some v)"
  by (induction xs) (auto simp: dropna_def split: option.splits)

lemma fold_max_ge: "a \<le> fold max ns (a::nat)"
  by (induction ns arbitrary: a) (auto intro: order_trans [OF max.cobounded2])

lemma fold_max_upper: "n \<in> set ns \<Longrightarrow> n \<le> fold max ns (a::nat)"
proof (induction ns arbitrary: a)
  case Nil
  then show ?case by simp
next
  case (Cons k ns)
  show ?case
  proof (cases "n = k")
    case True
    have "k \<le> max k a" by simp
    also have "\<dots> \<le> fold max ns (max k a)" by (rule fold_max_ge)
    finally show ?thesis using True by simp
  next
    case False
    with Cons.prems have "n \<in> set ns" by simp
    then show ?thesis using Cons.IH by simp
  qed
qed

lemma fold_max_mem: "fold max ns (a::nat) = a \<or> fold max ns a \<in> set ns"
proof (induction ns arbitrary: a)
  case Nil
  then show ?case by simp
next
  case (Cons k ns)
  from Cons.IH [of "max k a"] show ?case
    by (auto simp: max_def split: if_splits)
qed

lemma mode_props:
  assumes "mode xs \<noteq> []"
  shows "Some (mode xs ! 0) \<in> set xs \<and> (\<forall>w. count_list xs (Some w) \<le> count_list xs (Some (mode xs ! 0)))"
proof -
  define vs where "vs = dropna xs"
  define m where "m = fold max (map (count_list vs) vs) 0"
  have mode_eq: "mode xs = sort (filter (\<lambda>v. count_list vs v = m) (remdups vs))"
    by (simp add: mode_def vs_def m_def dropna_def Let_def)
  from assms have "mode xs ! 0 \<in> set (mode xs)" by simp
  then have in_vs: "mode xs ! 0 \<in> set vs" and cnt: "count_list vs (mode xs ! 0) = m"
    by (simp_all add: mode_eq)
  have "count_list vs w \<le> m" for w
  proof (cases "w \<in> set vs")
    case True
    then have "count_list vs w \<in> set (map (count_list vs) vs)" by simp
    then show ?thesis unfolding m_def by (rule fold_max_upper)
  next
    case False
    then show ?thesis by (simp add: count_list_0_iff)
  qed
  with in_vs cnt show ?thesis
    by (simp add: vs_def set_dropna count_dropna)
qed

lemma mode_empty_iff: "mode xs = [] \<longleftrightarrow> (\<forall>x \<in> set xs. x = None)"
proof
  assume "\<forall>x \<in> set xs. x = None"
  then have "dropna xs = []"
    by (induction xs) (auto simp: dropna_def)
  then show "mode xs = []" by (simp add: mode_def dropna_def [symmetric])
next
  assume e: "mode xs = []"
  define vs where "vs = dropna xs"
  define m where "m = fold max (map (count_list vs) vs) 0"
  have mode_eq: "mode xs = sort (filter (\<lambda>v. count_list vs v = m) (remdups vs))"
    by (simp add: mode_def vs_def m_def dropna_def Let_def)
  have "vs = []"
  proof (rule ccontr)
    assume ne: "vs \<noteq> []"
    then obtain v where v: "v \<in> set vs" by (cases vs) auto
    then have "count_list vs v \<noteq> 0" by (simp add: count_list_0_iff)
    then have "0 < count_list vs v" by simp
    moreover have "count_list vs v \<le> m"
      unfolding m_def using v by (intro fold_max_upper) simp
    ultimately have "m \<noteq> 0" by simp
    with fold_max_mem [of "map (count_list vs) vs" 0] have "m \<in> set (map (count_list vs) vs)"
      by (simp add: m_def)
    then obtain w where "w \<in> set vs" "count_list vs w = m" by auto
    then have "w \<in> set (mode xs)" by (simp add: mode_eq)
    with e show False by simp
  qed
  then show "\<forall>x \<in> set xs. x = None"
    using set_dropna [of xs] by (auto simp: vs_def) (metis not_Some_eq)
qed

lemma median_all_missing: "\<forall>x \<in> set xs. x = NaN \<Longrightarrow> median xs = NaN"
proof -
  assume "\<forall>x \<in> set xs. x = NaN"
  then have "filter (\<lambda>v. v \<noteq> NaN) xs = []" by (simp add: filter_empty_conv)
  then show ?thesis by (simp add: median_def)
qed

lemma median_ignores_missing: "median (filter (\<lambda>v. v \<noteq> NaN) xs) = median xs"
  by (simp add: median_def)

lemma fillna_same: "fillna a a xs = xs"
  by (simp add: fillna_def map_idI)

lemma fillna_nth: "i < length xs \<Longrightarrow> fillna a v xs ! i = (if xs ! i = a then v else xs ! i)"
  by (simp add: fillna_def)

lemma nth_impute_missing:
  "j < length features_df \<Longrightarrow> features_df ! j = (c, col) \<Longrightarrow>
     impute_missing features_df ! j = (c, impute_column col)"
  by (simp add: impute_missing_def)

lemma impute_float:
  "NaN \<in> set xs \<Longrightarrow>
     impute_column (FloatCol xs) =
       FloatCol (map (\<lambda>x. if x = NaN then median (filter (\<lambda>v. v \<noteq> NaN) xs) else x) xs)"
  by (simp add: impute_column_def fillna_def median_ignores_missing)

lemma impute_object:
  assumes "None \<in> set xs"
  shows "\<exists>fill. impute_column (ObjCol xs) = ObjCol (map (\<lambda>x. if x = None then Some fill else x) xs)
           \<and> (if \<forall>x \<in> set xs. x = None then fill = ''missing''
               else Some fill \<in> set xs
                 \<and> (\<forall>w. count_list xs (Some w) \<le> count_list xs (Some fill)))"
proof (cases "mode xs = []")
  case True
  then have "\<forall>x \<in> set xs. x = None" by (simp add: mode_empty_iff)
  moreover have "impute_column (ObjCol xs) = ObjCol (map (\<lambda>x. if x = None then Some ''missing'' else x) xs)"
    using assms True by (simp add: impute_column_def fillna_def Let_def)
  ultimately show ?thesis by auto
next
  case False
  then have "\<not> (\<forall>x \<in> set xs. x = None)" by (simp add: mode_empty_iff)
  moreover have "impute_column (ObjCol xs) = ObjCol (map (\<lambda>x. if x = None then Some (mode xs ! 0) else x) xs)"
    using assms False by (simp add: impute_column_def fillna_def Let_def)
  moreover note mode_props [OF False]
  ultimately show ?thesis by auto
qed

text \<open>
  C6. After assembly, in a column with a missing value, a numeric (float64) column has each
  missing cell replaced by the column's median over its non-missing cells and all other
  cells kept; for \<open>[1, 2, missing, 4]\<close> that median is 2. An object column has each
  missing cell replaced by its mode, a most frequent non-missing value, or by the text
  \<open>missing\<close> when every cell is missing.
\<close>

theorem post_assembly_imputation:
  assumes "j < length features_df" and "features_df ! j = (c, col)" and "isnull_any col"
  shows "(\<forall>xs. col = FloatCol xs \<longrightarrow>
            impute_missing features_df ! j =
              (c, FloatCol (map (\<lambda>x. if x = NaN then median (filter (\<lambda>v. v \<noteq> NaN) xs) else x) xs)))
       \<and> (\<forall>xs. col = ObjCol xs \<longrightarrow>
            (\<exists>fill. impute_missing features_df ! j =
                      (c, ObjCol (map (\<lambda>x. if x = None then Some fill else x) xs))
                \<and> (if \<forall>x \<in> set xs. x = None then fill = ''missing''
                    else Some fill \<in> set xs
                      \<and> (\<forall>w. count_list xs (Some w) \<le> count_list xs (Some fill)))))
       \<and> (is_numeric_dtype col \<longleftrightarrow> (\<exists>xs. col = FloatCol xs))
       \<and> median [Num 1, Num 2, NaN, Num 4] = Num 2"
proof -
  have "impute_missing features_df ! j =
      (c, FloatCol (map (\<lambda>x. if x = NaN then median (filter (\<lambda>v. v \<noteq> NaN) xs) else x) xs))"
    if "col = FloatCol xs" for xs
    using assms that by (simp add: nth_impute_missing impute_float)
  moreover have "\<exists>fill. impute_missing features_df ! j =
                      (c, ObjCol (map (\<lambda>x. if x = None then Some fill else x) xs))
                \<and> (if \<forall>x \<in> set xs. x = None then fill = ''missing''
                    else Some fill \<in> set xs
                      \<and> (\<forall>w. count_list xs (Some w) \<le> count_list xs (Some fill)))"
    if "col = ObjCol xs" for xs
  proof -
    from assms(3) that have "None \<in> set xs" by simp
    from impute_object [OF this] show ?thesis
      using assms(1,2) that by (simp add: nth_impute_missing)
  qed
  moreover have "is_numeric_dtype col \<longleftrightarrow> (\<exists>xs. col = FloatCol xs)"
    using assms(3) by (cases col) simp_all
  moreover have "median [Num 1, Num 2, NaN, Num 4] = Num 2"
    by code_simp
  ultimately show ?thesis by blast
qed

theorem post_assembly_imputation_witness:
  "(0::nat) < length [(''A4_pathLength'', FloatCol [Num 1, Num 2, NaN, Num 4])]
   \<and> isnull_any (FloatCol [Num 1, Num 2, NaN, Num 4])
   \<and> impute_missing [(''A4_pathLength'', FloatCol [Num 1, Num 2, NaN, Num 4])] ! 0 =
       (''A4_pathLength'', FloatCol [Num 1, Num 2, Num 2, Num 4])"
proof -
  let ?df = "[(''A4_pathLength'', FloatCol [Num 1, Num 2, NaN, Num 4])]"
  have h1: "(0::nat) < length ?df" by simp
  have h2: "?df ! 0 = (''A4_pathLength'', FloatCol [Num 1, Num 2, NaN, Num 4])" by simp
  have h3: "isnull_any (FloatCol [Num 1, Num 2, NaN, Num 4])" by simp
  have m: "median (filter (\<lambda>v. v \<noteq> NaN) [Num 1, Num 2, NaN, Num 4]) = Num 2" by code_simp
  from post_assembly_imputation [OF h1 h2 h3]
  have "impute_missing ?df ! 0 =
      (''A4_pathLength'', FloatCol (map (\<lambda>x. if x = NaN
           then median (filter (\<lambda>v. v \<noteq> NaN) [Num 1, Num 2, NaN, Num 4]) else x)
         [Num 1, Num 2, NaN, Num 4]))"
    by blast
  then have "impute_missing ?df ! 0 = (''A4_pathLength'', FloatCol [Num 1, Num 2, Num 2, Num 4])"
    by (simp only: m) simp
  with h1 h3 show ?thesis by blast
qed

text \<open>
  C10. A float64 column that is missing in every record is returned unchanged by the
  imputation, so it is still entirely missing; an object column that is missing in every
  record is filled with the text \<open>missing\<close>.
\<close>

theorem all_missing_numeric_column_stays_missing:
  assumes "j < length features_df" and "features_df ! j = (c, col)" and "isnull_all col"
  shows "(\<forall>xs. col = FloatCol xs \<longrightarrow>
            impute_missing features_df ! j = (c, FloatCol xs)
            \<and> (xs \<noteq> [] \<longrightarrow> isnull_any (snd (impute_missing features_df ! j))))
       \<and> (\<forall>ys. col = ObjCol ys \<longrightarrow>
            impute_missing features_df ! j = (c, ObjCol (replicate (length ys) (Some ''missing''))))"
proof -
  have "impute_missing features_df ! j = (c, FloatCol xs)
      \<and> (xs \<noteq> [] \<longrightarrow> isnull_any (snd (impute_missing features_df ! j)))"
    if col: "col = FloatCol xs" for xs
  proof -
    from assms(3) col have all: "\<forall>x \<in> set xs. x = NaN" by simp
    then have "fillna NaN (median xs) xs = xs"
      by (simp add: median_all_missing fillna_same)
    then have "impute_column (FloatCol xs) = FloatCol xs"
      by (simp add: impute_column_def)
    with assms(1,2) col have eq: "impute_missing features_df ! j = (c, FloatCol xs)"
      by (simp add: nth_impute_missing)
    moreover have "isnull_any (FloatCol xs)" if "xs \<noteq> []"
      using that all by (cases xs) auto
    ultimately show ?thesis by simp
  qed
  moreover have "impute_missing features_df ! j = (c, ObjCol (replicate (length ys) (Some ''missing'')))"
    if col: "col = ObjCol ys" for ys
  proof -
    from assms(3) col have all: "\<forall>y \<in> set ys. y = None" by simp
    then have m: "mode ys = []" by (simp add: mode_empty_iff)
    from all have "map (\<lambda>x. if x = None then Some ''missing'' else x) ys
        = replicate (length ys) (Some ''missing'')"
      by (induction ys) simp_all
    then have "fill_object (ObjCol ys) = ObjCol (replicate (length ys) (Some ''missing''))"
      using m by (simp add: fillna_def Let_def)
    moreover have "ys = replicate (length ys) (Some ''missing'')" if "None \<notin> set ys"
      using that all by (cases ys) auto
    ultimately have "impute_column (ObjCol ys) = ObjCol (replicate (length ys) (Some ''missing''))"
      by (auto simp: impute_column_def)
    with assms(1,2) col show ?thesis by (simp add: nth_impute_missing)
  qed
  ultimately show ?thesis by blast
qed

theorem all_missing_numeric_column_stays_missing_witness:
  "(0::nat) < length [(''A6_flashLoanAmountUsd'', FloatCol [NaN, NaN, NaN])]
   \<and> isnull_all (FloatCol [NaN, NaN, NaN])
   \<and> impute_missing [(''A6_flashLoanAmountUsd'', FloatCol [NaN, NaN, NaN])] ! 0 =
       (''A6_flashLoanAmountUsd'', FloatCol [NaN, NaN, NaN])"
proof -
  let ?df = "[(''A6_flashLoanAmountUsd'', FloatCol [NaN, NaN, NaN])]"
  have h1: "(0::nat) < length ?df" by simp
  have h2: "?df ! 0 = (''A6_flashLoanAmountUsd'', FloatCol [NaN, NaN, NaN])" by simp
  have h3: "isnull_all (FloatCol [NaN, NaN, NaN])" by simp
  from all_missing_numeric_column_stays_missing [OF h1 h2 h3]
  have "impute_missing ?df ! 0 = (''A6_flashLoanAmountUsd'', FloatCol [NaN, NaN, NaN])"
    by blast
  with h1 h3 show ?thesis by blast
qed

section \<open>Properties of the scaler and the trainer\<close>

text \<open>
  C8. A model type other than \<open>neural_network\<close>, \<open>xgboost\<close> and \<open>lightgbm\<close> makes the
  constructor of \<open>ModelTrainer\<close> raise \<open>ValueError\<close>, whatever the backends do, so no
  trainer exists on which \<open>train\<close> could be called. When \<open>scale_features\<close> has numeric
  columns to scale and is given no fitted scaler, a scaler type other than \<open>standard\<close>
  and \<open>minmax\<close> makes it raise \<open>ValueError\<close>.
\<close>

theorem unsupported_type_raises:
  "(mtype \<notin> {''neural_network'', ''xgboost'', ''lightgbm''} \<longrightarrow>
      ModelTrainer_init be mtype params rstate = Inl (ValueError (''Unsupported model_type: '' @ mtype)))
   \<and> (stype \<notin> {''standard'', ''minmax''} \<and> select_dtypes_number X_train \<noteq> [] \<longrightarrow>
      scale_features sk X_train X_test X_val stype None =
        Inl (ValueError ''scaler_type must be standard or minmax''))"
  by (simp add: ModelTrainer_init_def scale_features_def new_scaler_def bind_err_def Let_def)

theorem unsupported_type_raises_witness:
  "''svm'' \<notin> {''neural_network'', ''xgboost'', ''lightgbm''}
   \<and> ModelTrainer_init backends_standin ''svm'' None (Some 42) =
        Inl (ValueError ''Unsupported model_type: svm'')
   \<and> ''robust'' \<notin> {''standard'', ''minmax''}
   \<and> select_dtypes_number [(''A4_pathLength'', FloatCol [Num 2])] \<noteq> []
   \<and> scale_features sklearn_standin [(''A4_pathLength'', FloatCol [Num 2])] None None ''robust'' None =
        Inl (ValueError ''scaler_type must be standard or minmax'')"
  using unsupported_type_raises [of "''svm''" backends_standin None "Some 42" "''robust''"
      "[(''A4_pathLength'', FloatCol [Num 2])]" sklearn_standin None None]
  by (simp add: select_dtypes_number_def)

lemma prefit_fill_all_missing:
  "\<forall>x \<in> set xs. x = NaN \<Longrightarrow> prefit_fill xs = replicate (length xs) (Num 0)"
  by (simp add: prefit_fill_def map_replicate_const)

lemma prefit_fill_some_present:
  "\<not> (\<forall>x \<in> set xs. x = NaN) \<Longrightarrow>
     prefit_fill xs = map (\<lambda>x. if x = NaN then median xs else x) xs"
proof -
  assume a: "\<not> (\<forall>x \<in> set xs. x = NaN)"
  show ?thesis
  proof (cases "NaN \<in> set xs")
    case True
    with a show ?thesis by (auto simp: prefit_fill_def fillna_def Let_def)
  next
    case False
    then have "map (\<lambda>x. if x = NaN then median xs else x) xs = xs"
      by (intro map_idI) auto
    with a False show ?thesis by (auto simp: prefit_fill_def)
  qed
qed

lemma bind_err_Inr:
  "bind_err r f = Inr y \<longleftrightarrow> (\<exists>v. r = Inr v \<and> f v = Inr y)"
  by (cases r) (simp_all add: bind_err_def)

lemma fillna_fun: "fillna a v = map (\<lambda>x. if x = a then v else x)"
  by (rule ext) (simp add: fillna_def)

lemma transform_filled_Inr:
  "transform_filled sk sc X names = Inr Y \<longleftrightarrow>
     (\<exists>cols scaled. numeric_float64 sk X names = Inr cols
        \<and> transform sk sc (map (map (\<lambda>x. if x = NaN then Num 0 else x)) cols) = Inr scaled
        \<and> Y = setitem_cols X names scaled)"
  by (auto simp: transform_filled_def bind_err_Inr fillna_fun)

lemma transform_filled_opt_Inr:
  "transform_filled_opt sk sc X names = Inr Y \<longleftrightarrow>
     (case X of None \<Rightarrow> Y = None
      | Some Xt \<Rightarrow> (\<exists>Z. transform_filled sk sc Xt names = Inr Z \<and> Y = Some Z))"
  by (auto simp: transform_filled_opt_def bind_err_Inr split: option.splits)

lemma new_scaler_Inr:
  "new_scaler sk X_train names stype = Inr sc \<longleftrightarrow>
     (\<exists>kind train_cols.
        (stype = ''standard'' \<and> kind = Standard \<or> stype = ''minmax'' \<and> kind = MinMax)
        \<and> numeric_float64 sk X_train names = Inr train_cols
        \<and> fit sk kind (map prefit_fill train_cols) = Inr sc)"
  by (auto simp: new_scaler_def bind_err_Inr)

lemma scale_features_new_Inr:
  assumes "select_dtypes_number X_train \<noteq> []"
  shows "scale_features sk X_train X_test X_val stype None = Inr (Xtr, Xte, Xva, sc_opt) \<longleftrightarrow>
     (\<exists>sc. sc_opt = Some sc
        \<and> new_scaler sk X_train (select_dtypes_number X_train) stype = Inr sc
        \<and> transform_filled sk sc X_train (select_dtypes_number X_train) = Inr Xtr
        \<and> transform_filled_opt sk sc X_test (select_dtypes_number X_train) = Inr Xte
        \<and> transform_filled_opt sk sc X_val (select_dtypes_number X_train) = Inr Xva)"
  using assms by (auto simp: scale_features_def Let_def bind_err_Inr)

text \<open>
  C4. When \<open>scale_features\<close> fits a new scaler and returns, the scaler was fitted on the
  numeric training columns after this fill: a column missing in every cell became all
  zeros, and in any other column each missing cell became the column's own median. The
  scaled training, test and validation frames are the scaler's transform of the numeric
  columns in which each missing cell was replaced by zero, never by that median.
\<close>

theorem fit_and_transform_imputation:
  assumes "scale_features sk X_train X_test X_val stype None = Inr (Xtr, Xte, Xva, sc_opt)"
    and "select_dtypes_number X_train \<noteq> []"
  shows "\<exists>sc kind train_cols.
           sc_opt = Some sc
         \<and> numeric_float64 sk X_train (select_dtypes_number X_train) = Inr train_cols
         \<and> fit sk kind (map prefit_fill train_cols) = Inr sc
         \<and> (\<forall>xs \<in> set train_cols.
               ((\<forall>x \<in> set xs. x = NaN) \<longrightarrow> prefit_fill xs = replicate (length xs) (Num 0))
             \<and> (\<not> (\<forall>x \<in> set xs. x = NaN) \<longrightarrow>
                   prefit_fill xs = map (\<lambda>x. if x = NaN then median xs else x) xs))
         \<and> (\<exists>scaled.
               transform sk sc (map (map (\<lambda>x. if x = NaN then Num 0 else x)) train_cols) = Inr scaled
             \<and> Xtr = setitem_cols X_train (select_dtypes_number X_train) scaled)
         \<and> (\<forall>Xt. X_test = Some Xt \<longrightarrow>
               (\<exists>cols scaled.
                  numeric_float64 sk Xt (select_dtypes_number X_train) = Inr cols
                \<and> transform sk sc (map (map (\<lambda>x. if x = NaN then Num 0 else x)) cols) = Inr scaled
                \<and> Xte = Some (setitem_cols Xt (select_dtypes_number X_train) scaled)))
         \<and> (\<forall>Xv. X_val = Some Xv \<longrightarrow>
               (\<exists>cols scaled.
                  numeric_float64 sk Xv (select_dtypes_number X_train) = Inr cols
                \<and> transform sk sc (map (map (\<lambda>x. if x = NaN then Num 0 else x)) cols) = Inr scaled
                \<and> Xva = Some (setitem_cols Xv (select_dtypes_number X_train) scaled)))"
proof -
  let ?nc = "select_dtypes_number X_train"
  from assms obtain sc where sc: "sc_opt = Some sc"
    and new: "new_scaler sk X_train ?nc stype = Inr sc"
    and tr: "transform_filled sk sc X_train ?nc = Inr Xtr"
    and te: "transform_filled_opt sk sc X_test ?nc = Inr Xte"
    and va: "transform_filled_opt sk sc X_val ?nc = Inr Xva"
    by (auto simp: scale_features_new_Inr)
  from new obtain kind train_cols where
    cols: "numeric_float64 sk X_train ?nc = Inr train_cols"
    and fitted: "fit sk kind (map prefit_fill train_cols) = Inr sc"
    by (auto simp: new_scaler_Inr)
  have fill: "\<forall>xs \<in> set train_cols.
               ((\<forall>x \<in> set xs. x = NaN) \<longrightarrow> prefit_fill xs = replicate (length xs) (Num 0))
             \<and> (\<not> (\<forall>x \<in> set xs. x = NaN) \<longrightarrow>
                   prefit_fill xs = map (\<lambda>x. if x = NaN then median xs else x) xs)"
    using prefit_fill_all_missing prefit_fill_some_present by blast
  from tr cols have train: "\<exists>scaled.
               transform sk sc (map (map (\<lambda>x. if x = NaN then Num 0 else x)) train_cols) = Inr scaled
             \<and> Xtr = setitem_cols X_train ?nc scaled"
    by (auto simp: transform_filled_Inr)
  have test: "\<exists>cols scaled.
                  numeric_float64 sk Xt ?nc = Inr cols
                \<and> transform sk sc (map (map (\<lambda>x. if x = NaN then Num 0 else x)) cols) = Inr scaled
                \<and> Xte = Some (setitem_cols Xt ?nc scaled)"
    if "X_test = Some Xt" for Xt
    using te that by (auto simp: transform_filled_opt_Inr transform_filled_Inr)
  have val: "\<exists>cols scaled.
                  numeric_float64 sk Xv ?nc = Inr cols
                \<and> transform sk sc (map (map (\<lambda>x. if x = NaN then Num 0 else x)) cols) = Inr scaled
                \<and> Xva = Some (setitem_cols Xv ?nc scaled)"
    if "X_val = Some Xv" for Xv
    using va that by (auto simp: transform_filled_opt_Inr transform_filled_Inr)
  from sc cols fitted fill train test val show ?thesis by blast
qed

lemma median_odd_example: "median [Num 1, NaN, Num 3, Num 2, NaN] = Num 2"
  by (simp add: median_def)

theorem fit_and_transform_imputation_witness:
  "scale_features sklearn_standin
      [(''A1'', FloatCol [Num 1, NaN, Num 3, Num 2, NaN]), (''A6'', FloatCol [NaN, NaN, NaN, NaN, NaN])]
      (Some [(''A1'', FloatCol [NaN]), (''A6'', FloatCol [Num 5])]) None ''standard'' None =
     Inr ([(''A1'', FloatCol [fdiv (fsub (Num 1) (Num 2)) (Num 2), fdiv (fsub (Num 0) (Num 2)) (Num 2),
                             fdiv (fsub (Num 3) (Num 2)) (Num 2), fdiv (fsub (Num 2) (Num 2)) (Num 2),
                             fdiv (fsub (Num 0) (Num 2)) (Num 2)]),
           (''A6'', FloatCol (replicate 5 (fdiv (fsub (Num 0) (Num 0)) (Num 2))))],
          Some [(''A1'', FloatCol [fdiv (fsub (Num 0) (Num 2)) (Num 2)]),
                (''A6'', FloatCol [fdiv (fsub (Num 5) (Num 0)) (Num 2)])],
          None,
          Some (StandardScaler [Num 2, Num 0] [Num 2, Num 2]))
   \<and> select_dtypes_number
        [(''A1'', FloatCol [Num 1, NaN, Num 3, Num 2, NaN]), (''A6'', FloatCol [NaN, NaN, NaN, NaN, NaN])] \<noteq> []
   \<and> (\<exists>kind train_cols.
         numeric_float64 sklearn_standin
           [(''A1'', FloatCol [Num 1, NaN, Num 3, Num 2, NaN]), (''A6'', FloatCol [NaN, NaN, NaN, NaN, NaN])]
           (select_dtypes_number
              [(''A1'', FloatCol [Num 1, NaN, Num 3, Num 2, NaN]), (''A6'', FloatCol [NaN, NaN, NaN, NaN, NaN])])
           = Inr train_cols
       \<and> fit sklearn_standin kind (map prefit_fill train_cols) =
           Inr (StandardScaler [Num 2, Num 0] [Num 2, Num 2]))"
proof -
  let ?X = "[(''A1'', FloatCol [Num 1, NaN, Num 3, Num 2, NaN]), (''A6'', FloatCol [NaN, NaN, NaN, NaN, NaN])]"
  have nc: "select_dtypes_number ?X = [''A1'', ''A6'']"
    by (simp add: select_dtypes_number_def)
  have pf: "prefit_fill [Num 1, NaN, Num 3, Num 2, NaN] = [Num 1, Num 2, Num 3, Num 2, Num 2]"
    "prefit_fill [NaN, NaN, NaN, NaN, NaN] = [Num 0, Num 0, Num 0, Num 0, Num 0]"
    by (simp_all add: prefit_fill_def fillna_def median_odd_example Let_def)
  have md: "median [Num 1, Num 2, Num 3, Num 2, Num 2] = Num 2"
    "median [Num 0, Num 0, Num 0, Num 0, Num 0] = Num 0"
    by (simp_all add: median_def)
  have h1: "scale_features sklearn_standin ?X
      (Some [(''A1'', FloatCol [NaN]), (''A6'', FloatCol [Num 5])]) None ''standard'' None =
     Inr ([(''A1'', FloatCol [fdiv (fsub (Num 1) (Num 2)) (Num 2), fdiv (fsub (Num 0) (Num 2)) (Num 2),
                             fdiv (fsub (Num 3) (Num 2)) (Num 2), fdiv (fsub (Num 2) (Num 2)) (Num 2),
                             fdiv (fsub (Num 0) (Num 2)) (Num 2)]),
           (''A6'', FloatCol (replicate 5 (fdiv (fsub (Num 0) (Num 0)) (Num 2))))],
          Some [(''A1'', FloatCol [fdiv (fsub (Num 0) (Num 2)) (Num 2)]),
                (''A6'', FloatCol [fdiv (fsub (Num 5) (Num 0)) (Num 2)])],
          None,
          Some (StandardScaler [Num 2, Num 0] [Num 2, Num 2]))"
    unfolding scale_features_def nc Let_def
    by (simp add: new_scaler_def numeric_float64_def getitem_cols_def bind_err_def pf md fit_def
        check_array_def sklearn_standin_def transform_filled_def transform_filled_opt_def
        transform_def n_features_in_def fillna_def setitem_cols_def numeral_eq_Suc
        del: fdiv.simps)
  have h2: "select_dtypes_number ?X \<noteq> []"
    by (simp add: nc)
  from fit_and_transform_imputation [OF h1 h2]
  have "\<exists>kind train_cols.
         numeric_float64 sklearn_standin ?X (select_dtypes_number ?X) = Inr train_cols
       \<and> fit sklearn_standin kind (map prefit_fill train_cols) =
           Inr (StandardScaler [Num 2, Num 0] [Num 2, Num 2])"
    by blast
  with h1 h2 show ?thesis by blast
qed

section \<open>Properties of the exported scaler parameters\<close>

lemma collect_length: "collect rs = Inr vs \<Longrightarrow> length vs = length rs"
  by (drule collect_Inr_D) simp

lemma collect_nth: "collect rs = Inr vs \<Longrightarrow> k < length rs \<Longrightarrow> rs ! k = Inr (vs ! k)"
  by (drule collect_Inr_D) simp

lemma getitem_cols_nth:
  assumes "getitem_cols X names = Inr cols"
  shows "length cols = length names"
    and "k < length names \<Longrightarrow> map_of X (names ! k) = Some (cols ! k)"
proof -
  from assms have c: "collect (map (\<lambda>c. case map_of X c of None \<Rightarrow> Inl (KeyError c) | Some col \<Rightarrow> Inr col) names) = Inr cols"
    by (simp add: getitem_cols_def)
  from collect_length [OF c] show "length cols = length names" by simp
  assume k: "k < length names"
  with collect_nth [OF c, of k]
  have "(case map_of X (names ! k) of None \<Rightarrow> Inl (KeyError (names ! k)) | Some col \<Rightarrow> Inr col) = Inr (cols ! k)"
    by simp
  then show "map_of X (names ! k) = Some (cols ! k)"
    by (simp split: option.splits)
qed

lemma numeric_float64_nth:
  assumes "numeric_float64 sk X names = Inr fs"
  shows "length fs = length names"
    and "k < length names \<Longrightarrow>
           \<exists>col. map_of X (names ! k) = Some col \<and> astype_float64 sk col = Inr (fs ! k)"
proof -
  from assms obtain cols where g: "getitem_cols X names = Inr cols"
    and c: "collect (map (astype_float64 sk) cols) = Inr fs"
    by (auto simp: numeric_float64_def bind_err_Inr)
  from collect_length [OF c] getitem_cols_nth(1) [OF g]
  show "length fs = length names" by simp
  assume k: "k < length names"
  with getitem_cols_nth [OF g] have "map_of X (names ! k) = Some (cols ! k)" "k < length cols"
    by simp_all
  moreover from collect_nth [OF c, of k] \<open>k < length cols\<close>
  have "astype_float64 sk (cols ! k) = Inr (fs ! k)" by simp
  ultimately show "\<exists>col. map_of X (names ! k) = Some col \<and> astype_float64 sk col = Inr (fs ! k)"
    by blast
qed

lemma fit_standard:
  assumes "fit sk Standard cols = Inr sc"
  shows "sc = StandardScaler (map (\<lambda>xs. fst (standard_fit sk xs)) cols)
                             (map (\<lambda>xs. snd (standard_fit sk xs)) cols)"
  using assms by (auto simp: fit_def bind_err_Inr)

lemma transform_standard_nth:
  assumes "transform sk (StandardScaler m s) cols = Inr scaled"
    and "length s = length m"
  shows "length scaled = length cols"
    and "length cols = length m"
    and "k < length cols \<Longrightarrow> scaled ! k = map (\<lambda>x. fdiv (fsub x (m ! k)) (s ! k)) (cols ! k)"
proof -
  from assms(1) have len: "length cols = length m"
    and sc: "scaled = map (\<lambda>(xs, mean, scale). map (\<lambda>x. fdiv (fsub x mean) scale) xs) (zip cols (zip m s))"
    by (auto simp: transform_def bind_err_Inr n_features_in_def split: if_splits)
  show "length cols = length m" by (rule len)
  from sc len assms(2) show "length scaled = length cols" by simp
  assume "k < length cols"
  with sc len assms(2) show "scaled ! k = map (\<lambda>x. fdiv (fsub x (m ! k)) (s ! k)) (cols ! k)"
    by simp
qed

lemma dict_zip_nth:
  assumes "distinct ks" and "length vs = length ks" and "k < length ks"
  shows "dict_zip ks vs (ks ! k) = Some (vs ! k)"
proof -
  have d: "distinct (map fst (rev (zip ks vs)))"
    using assms(1,2) by (simp add: rev_map [symmetric])
  have "(ks ! k, vs ! k) \<in> set (zip ks vs)"
    using assms(2,3) by (auto simp: set_zip)
  then have "(ks ! k, vs ! k) \<in> set (rev (zip ks vs))" by simp
  with d show ?thesis unfolding dict_zip_def by (simp only: map_of_eq_Some_iff)
qed

lemma map_of_setitem_cols:
  "map_of (setitem_cols X names cols) c =
     (case map_of X c of None \<Rightarrow> None
      | Some col \<Rightarrow> (case map_of (zip names cols) c of None \<Rightarrow> Some col | Some xs \<Rightarrow> Some (FloatCol xs)))"
  by (induction X) (auto simp: setitem_cols_def split: option.splits)

lemma select_dtypes_number_schema:
  "select_dtypes_number X = map fst (filter (\<lambda>(c, d). d = Float64 \<or> d = Int64) (schema X))"
proof (induction X)
  case Nil
  then show ?case by (simp add: select_dtypes_number_def schema_def)
next
  case (Cons p X)
  obtain c col where p: "p = (c, col)" by (cases p)
  from Cons show ?case
    by (cases col) (simp_all add: p select_dtypes_number_def schema_def)
qed

lemma numeric_cols_scaled_schema:
  "map fst (filter (\<lambda>(c, col). is_numeric_dtype col) X) =
     map fst (filter (\<lambda>(c, d). d \<noteq> Object) (schema X))"
proof (induction X)
  case Nil
  then show ?case by (simp add: schema_def)
next
  case (Cons p X)
  obtain c col where p: "p = (c, col)" by (cases p)
  from Cons show ?case
    by (cases col) (simp_all add: p schema_def)
qed

lemma no_bool_numeric_cols:
  assumes "\<forall>(c, col) \<in> set X. dtype_of col \<noteq> Bool"
  shows "map fst (filter (\<lambda>(c, col). is_numeric_dtype col) X) = select_dtypes_number X"
  using assms
proof (induction X)
  case Nil
  then show ?case by (simp add: select_dtypes_number_def)
next
  case (Cons p X)
  obtain c col where p: "p = (c, col)" by (cases p)
  from Cons show ?case
    by (cases col) (simp_all add: p select_dtypes_number_def)
qed

lemma distinct_select_dtypes_number:
  "distinct (map fst X) \<Longrightarrow> distinct (select_dtypes_number X)"
  by (simp add: select_dtypes_number_def distinct_map_filter)

lemma schema_names: "map fst (schema X) = map fst X"
  by (induction X) (auto simp: schema_def)

lemma mem_select_dtypes_number:
  "(c, col) \<in> set X \<Longrightarrow> is_number_dtype col \<Longrightarrow> c \<in> set (select_dtypes_number X)"
  by (force simp: select_dtypes_number_def)

text \<open>
  C1. Take a run with the standardization scaler in which the training and the held-out
  frame are partitions of the feature matrix (they have its schema), whose column names
  are distinct and none of whose columns is boolean. Then the metadata names the scaler
  \<open>standard\<close>, lists the scaled numeric columns, and maps each of them to the mean and the
  scale that were fitted on that training column. For every numeric column of the
  held-out frame, the scaled cell is \<open>(x - mean) / scale\<close> computed with the exported
  parameters from the cell \<open>x\<close> that was transformed (zero where the cell was missing).
\<close>

theorem exported_scaler_parameters_replay:
  assumes run: "scale_features sk X_train (Some X_test) X_val ''standard'' None =
                  Inr (Xtr, Xte, Xva, Some sc)"
    and names: "distinct (map fst X_features_df)"
    and s_tr: "schema X_train = schema X_features_df"
    and s_te: "schema X_test = schema X_features_df"
    and nobool: "\<forall>(c, col) \<in> set X_features_df. dtype_of col \<noteq> Bool"
    and col: "(c, col) \<in> set X_test" "is_number_dtype col"
  shows "\<exists>mean scale m s tcol txs xs ys Xte'.
           scaler_type (export_scaler_params X_features_df (Some sc)) = Some ''standard''
         \<and> numeric_features_scaled (export_scaler_params X_features_df (Some sc)) =
             Some (select_dtypes_number X_train)
         \<and> scaler_params (export_scaler_params X_features_df (Some sc)) =
             [(''mean'', mean), (''scale'', scale)]
         \<and> mean c = Some m \<and> scale c = Some s
         \<and> map_of X_train c = Some tcol \<and> astype_float64 sk tcol = Inr txs
         \<and> standard_fit sk (prefit_fill txs) = (m, s)
         \<and> Xte = Some Xte' \<and> astype_float64 sk col = Inr xs
         \<and> map_of Xte' c = Some (FloatCol ys) \<and> length ys = length xs
         \<and> (\<forall>i < length xs.
               ys ! i = fdiv (fsub (if xs ! i = NaN then Num 0 else xs ! i) m) s)"
proof -
  let ?nc = "select_dtypes_number X_train"
  have ne: "?nc \<noteq> []"
  proof
    assume "?nc = []"
    with run show False by (simp add: scale_features_def)
  qed
  from run ne obtain Xte' where new: "new_scaler sk X_train ?nc ''standard'' = Inr sc"
    and xte: "Xte = Some Xte'"
    and te: "transform_filled sk sc X_test ?nc = Inr Xte'"
    by (auto simp: scale_features_new_Inr transform_filled_opt_Inr)
  from new obtain train_cols where
    tc: "numeric_float64 sk X_train ?nc = Inr train_cols"
    and fitted: "fit sk Standard (map prefit_fill train_cols) = Inr sc"
    by (auto simp: new_scaler_Inr)
  define M where "M = map (\<lambda>xs. fst (standard_fit sk xs)) (map prefit_fill train_cols)"
  define S where "S = map (\<lambda>xs. snd (standard_fit sk xs)) (map prefit_fill train_cols)"
  from fit_standard [OF fitted] have sc: "sc = StandardScaler M S"
    by (simp add: M_def S_def)
  have len_tc: "length train_cols = length ?nc"
    by (rule numeric_float64_nth(1) [OF tc])
  then have len_M: "length M = length ?nc" and len_S: "length S = length ?nc"
    by (simp_all add: M_def S_def)
  \<comment> \<open>the exported keys are the columns the scaler was fitted on\<close>
  have nc_X: "?nc = select_dtypes_number X_features_df"
    by (simp add: select_dtypes_number_schema s_tr)
  have nc_te: "select_dtypes_number X_test = ?nc"
    by (simp add: select_dtypes_number_schema s_tr s_te)
  have keys: "map fst (filter (\<lambda>(c, col). is_numeric_dtype col) X_features_df) = ?nc"
    using no_bool_numeric_cols [OF nobool] nc_X by simp
  have dist_tr: "distinct (map fst X_train)" and dist_te: "distinct (map fst X_test)"
    using names schema_names [of X_train] schema_names [of X_test] schema_names [of X_features_df]
      s_tr s_te by simp_all
  have dist_nc: "distinct ?nc"
    by (rule distinct_select_dtypes_number [OF dist_tr])
  have meta:
    "scaler_type (export_scaler_params X_features_df (Some sc)) = Some ''standard''"
    "numeric_features_scaled (export_scaler_params X_features_df (Some sc)) = Some ?nc"
    "scaler_params (export_scaler_params X_features_df (Some sc)) =
       [(''mean'', dict_zip ?nc M), (''scale'', dict_zip ?nc S)]"
    by (simp_all add: export_scaler_params_def sc keys Let_def)
  \<comment> \<open>the position of the column among the numeric columns\<close>
  from col have "c \<in> set (select_dtypes_number X_test)"
    by (rule mem_select_dtypes_number)
  then obtain k where k: "k < length ?nc" and ck: "?nc ! k = c"
    by (auto simp: nc_te in_set_conv_nth)
  have mean: "dict_zip ?nc M c = Some (M ! k)" and scale: "dict_zip ?nc S c = Some (S ! k)"
    using dict_zip_nth [OF dist_nc len_M k] dict_zip_nth [OF dist_nc len_S k] ck by simp_all
  from numeric_float64_nth(2) [OF tc k] ck obtain tcol where
    tcol: "map_of X_train c = Some tcol" "astype_float64 sk tcol = Inr (train_cols ! k)"
    by auto
  have fit_k: "standard_fit sk (prefit_fill (train_cols ! k)) = (M ! k, S ! k)"
    using k len_tc by (simp add: M_def S_def)
  \<comment> \<open>the held-out frame\<close>
  from te obtain cols scaled where
    cs: "numeric_float64 sk X_test ?nc = Inr cols"
    and tr: "transform sk sc (map (map (\<lambda>x. if x = NaN then Num 0 else x)) cols) = Inr scaled"
    and Xte': "Xte' = setitem_cols X_test ?nc scaled"
    by (auto simp: transform_filled_Inr)
  have len_cols: "length cols = length ?nc"
    by (rule numeric_float64_nth(1) [OF cs])
  from col(1) dist_te have mo: "map_of X_test c = Some col" by simp
  from numeric_float64_nth(2) [OF cs k] ck mo have xs: "astype_float64 sk col = Inr (cols ! k)"
    by auto
  from tr have tr': "transform sk (StandardScaler M S)
      (map (map (\<lambda>x. if x = NaN then Num 0 else x)) cols) = Inr scaled"
    by (simp add: sc)
  have SM: "length S = length M" by (simp add: len_M len_S)
  have len_scaled: "length scaled = length ?nc"
    using transform_standard_nth(1) [OF tr' SM] len_cols by simp
  have "k < length (map (map (\<lambda>x. if x = NaN then Num 0 else x)) cols)"
    using k len_cols by simp
  from transform_standard_nth(3) [OF tr' SM this]
  have sk: "scaled ! k = map (\<lambda>x. fdiv (fsub x (M ! k)) (S ! k))
      (map (\<lambda>x. if x = NaN then Num 0 else x) (cols ! k))"
    using k len_cols by simp
  have "map_of (zip ?nc scaled) (?nc ! k) = Some (scaled ! k)"
    using len_scaled dist_nc k by (intro map_of_zip_nth) simp_all
  with mo have out: "map_of Xte' c = Some (FloatCol (scaled ! k))"
    by (simp add: Xte' map_of_setitem_cols ck)
  have cells: "\<forall>i < length (cols ! k).
      (scaled ! k) ! i = fdiv (fsub (if (cols ! k) ! i = NaN then Num 0 else (cols ! k) ! i) (M ! k)) (S ! k)"
    by (simp add: sk)
  have len_out: "length (scaled ! k) = length (cols ! k)"
    by (simp add: sk)
  from meta mean scale tcol fit_k xte xs out len_out cells show ?thesis
    by blast
qed

theorem exported_scaler_parameters_replay_witness:
  "scale_features sklearn_standin
      [(''A1'', FloatCol [Num 1, Num 3, Num 2]), (''note'', ObjCol [Some ''a'', None, Some ''b''])]
      (Some [(''A1'', FloatCol [Num 5]), (''note'', ObjCol [None])]) None ''standard'' None =
     Inr ([(''A1'', FloatCol [fdiv (fsub (Num 1) (Num 2)) (Num 2), fdiv (fsub (Num 3) (Num 2)) (Num 2),
                             fdiv (fsub (Num 2) (Num 2)) (Num 2)]),
           (''note'', ObjCol [Some ''a'', None, Some ''b''])],
          Some [(''A1'', FloatCol [fdiv (fsub (Num 5) (Num 2)) (Num 2)]), (''note'', ObjCol [None])],
          None,
          Some (StandardScaler [Num 2] [Num 2]))
   \<and> distinct (map fst [(''A1'', FloatCol [Num 1, Num 3, Num 2, Num 5]),
                          (''note'', ObjCol [Some ''a'', None, Some ''b'', None])])
   \<and> schema [(''A1'', FloatCol [Num 1, Num 3, Num 2]), (''note'', ObjCol [Some ''a'', None, Some ''b''])] =
       schema [(''A1'', FloatCol [Num 1, Num 3, Num 2, Num 5]),
               (''note'', ObjCol [Some ''a'', None, Some ''b'', None])]
   \<and> schema [(''A1'', FloatCol [Num 5]), (''note'', ObjCol [None])] =
       schema [(''A1'', FloatCol [Num 1, Num 3, Num 2, Num 5]),
               (''note'', ObjCol [Some ''a'', None, Some ''b'', None])]
   \<and> list_all (\<lambda>(c, col). dtype_of col \<noteq> Bool)
        [(''A1'', FloatCol [Num 1, Num 3, Num 2, Num 5]),
         (''note'', ObjCol [Some ''a'', None, Some ''b'', None])]
   \<and> is_number_dtype (FloatCol [Num 5])
   \<and> (\<exists>mean scale m s.
         scaler_params (export_scaler_params
             [(''A1'', FloatCol [Num 1, Num 3, Num 2, Num 5]),
              (''note'', ObjCol [Some ''a'', None, Some ''b'', None])]
             (Some (StandardScaler [Num 2] [Num 2]))) = [(''mean'', mean), (''scale'', scale)]
       \<and> mean ''A1'' = Some m \<and> scale ''A1'' = Some s
       \<and> standard_fit sklearn_standin (prefit_fill [Num 1, Num 3, Num 2]) = (m, s))"
proof -
  let ?X = "[(''A1'', FloatCol [Num 1, Num 3, Num 2, Num 5]),
             (''note'', ObjCol [Some ''a'', None, Some ''b'', None])]"
  let ?Xtr = "[(''A1'', FloatCol [Num 1, Num 3, Num 2]), (''note'', ObjCol [Some ''a'', None, Some ''b''])]"
  let ?Xte = "[(''A1'', FloatCol [Num 5]), (''note'', ObjCol [None])]"
  have nc: "select_dtypes_number ?Xtr = [''A1'']"
    by (simp add: select_dtypes_number_def)
  have pf: "prefit_fill [Num 1, Num 3, Num 2] = [Num 1, Num 3, Num 2]"
    by (simp add: prefit_fill_def)
  have md: "median [Num 1, Num 3, Num 2] = Num 2"
    by (simp add: median_def)
  have h1: "scale_features sklearn_standin ?Xtr (Some ?Xte) None ''standard'' None =
     Inr ([(''A1'', FloatCol [fdiv (fsub (Num 1) (Num 2)) (Num 2), fdiv (fsub (Num 3) (Num 2)) (Num 2),
                             fdiv (fsub (Num 2) (Num 2)) (Num 2)]),
           (''note'', ObjCol [Some ''a'', None, Some ''b''])],
          Some [(''A1'', FloatCol [fdiv (fsub (Num 5) (Num 2)) (Num 2)]), (''note'', ObjCol [None])],
          None,
          Some (StandardScaler [Num 2] [Num 2]))"
    unfolding scale_features_def nc Let_def
    by (simp add: new_scaler_def numeric_float64_def getitem_cols_def bind_err_def pf md fit_def
        check_array_def sklearn_standin_def transform_filled_def transform_filled_opt_def
        transform_def n_features_in_def fillna_def setitem_cols_def
        del: fdiv.simps)
  have h2: "distinct (map fst ?X)" by simp
  have h3: "schema ?Xtr = schema ?X" by (simp add: schema_def)
  have h4: "schema ?Xte = schema ?X" by (simp add: schema_def)
  have h5: "\<forall>(c, col) \<in> set ?X. dtype_of col \<noteq> Bool" by simp
  have h6: "(''A1'', FloatCol [Num 5]) \<in> set ?Xte" by simp
  have h7: "is_number_dtype (FloatCol [Num 5])" by simp
  from exported_scaler_parameters_replay [OF h1 h2 h3 h4 h5 h6 h7]
  obtain mean scale m s tcol txs where
    p: "scaler_params (export_scaler_params ?X (Some (StandardScaler [Num 2] [Num 2]))) =
          [(''mean'', mean), (''scale'', scale)]"
      "mean ''A1'' = Some m" "scale ''A1'' = Some s"
    and t: "map_of ?Xtr ''A1'' = Some tcol" "astype_float64 sklearn_standin tcol = Inr txs"
      "standard_fit sklearn_standin (prefit_fill txs) = (m, s)"
    by blast
  from t have "standard_fit sklearn_standin (prefit_fill [Num 1, Num 3, Num 2]) = (m, s)"
    by auto
  with p have "\<exists>mean scale m s.
         scaler_params (export_scaler_params ?X (Some (StandardScaler [Num 2] [Num 2]))) =
           [(''mean'', mean), (''scale'', scale)]
       \<and> mean ''A1'' = Some m \<and> scale ''A1'' = Some s
       \<and> standard_fit sklearn_standin (prefit_fill [Num 1, Num 3, Num 2]) = (m, s)"
    by blast
  moreover have "list_all (\<lambda>(c, col). dtype_of col \<noteq> Bool) ?X" by simp
  ultimately show ?thesis using h1 h2 h3 h4 h7 by blast
qed


lemma standin_scaled_zero_cell: "fdiv (fsub (Num 0) (Num 2)) (Num 2) = Num (- 1)"
  by code_simp

text \<open>
  The claim as stated fails in two ways. A held-out cell that is missing is scaled as if
  it were zero, so recomputing \<open>(x - mean) / scale\<close> from the missing cell itself gives NaN
  where the scaled frame holds a number. And when the feature matrix has a boolean
  column, the exported keys include it although the scaler was not fitted on it, so the
  parameters are paired with the wrong names: here \<open>A1\<close> is exported with the mean that
  was fitted on \<open>A2\<close>, and \<open>A2\<close> has no exported mean.
\<close>

theorem exported_scaler_parameters_counterexample:
  "scale_features sklearn_standin
      [(''A1'', FloatCol [Num 1, Num 3, Num 2])]
      (Some [(''A1'', FloatCol [NaN])]) None ''standard'' None =
     Inr ([(''A1'', FloatCol [fdiv (fsub (Num 1) (Num 2)) (Num 2), fdiv (fsub (Num 3) (Num 2)) (Num 2),
                             fdiv (fsub (Num 2) (Num 2)) (Num 2)])],
          Some [(''A1'', FloatCol [Num (- 1)])],
          None,
          Some (StandardScaler [Num 2] [Num 2]))
   \<and> map (\<lambda>(k, m). (k, m ''A1''))
        (scaler_params (export_scaler_params [(''A1'', FloatCol [Num 1, Num 3, Num 2, NaN])]
           (Some (StandardScaler [Num 2] [Num 2])))) =
       [(''mean'', Some (Num 2)), (''scale'', Some (Num 2))]
   \<and> fdiv (fsub NaN (Num 2)) (Num 2) = NaN
   \<and> Num (- 1) \<noteq> NaN
   \<and> scale_features sklearn_standin
      [(''flag'', BoolCol [True, False, True]), (''A1'', FloatCol [Num 1, Num 3, Num 2]),
       (''A2'', FloatCol [Num 10, Num 30, Num 20])]
      None None ''standard'' None =
     Inr ([(''flag'', BoolCol [True, False, True]),
           (''A1'', FloatCol [fdiv (fsub (Num 1) (Num 2)) (Num 2), fdiv (fsub (Num 3) (Num 2)) (Num 2),
                             fdiv (fsub (Num 2) (Num 2)) (Num 2)]),
           (''A2'', FloatCol [fdiv (fsub (Num 10) (Num 20)) (Num 2), fdiv (fsub (Num 30) (Num 20)) (Num 2),
                             fdiv (fsub (Num 20) (Num 20)) (Num 2)])],
          None, None,
          Some (StandardScaler [Num 2, Num 20] [Num 2, Num 2]))
   \<and> map (\<lambda>(k, m). (k, m ''flag'', m ''A1'', m ''A2''))
        (scaler_params (export_scaler_params
           [(''flag'', BoolCol [True, False, True, False]), (''A1'', FloatCol [Num 1, Num 3, Num 2, Num 5]),
            (''A2'', FloatCol [Num 10, Num 30, Num 20, Num 50])]
           (Some (StandardScaler [Num 2, Num 20] [Num 2, Num 2])))) =
       [(''mean'', Some (Num 2), Some (Num 20), None),
        (''scale'', Some (Num 2), Some (Num 2), None)]"
proof -
  have md: "median [Num 1, Num 3, Num 2] = Num 2" "median [Num 10, Num 30, Num 20] = Num 20"
    by (simp_all add: median_def)
  have pf: "prefit_fill [Num 1, Num 3, Num 2] = [Num 1, Num 3, Num 2]"
    "prefit_fill [Num 10, Num 30, Num 20] = [Num 10, Num 30, Num 20]"
    by (simp_all add: prefit_fill_def)
  have nc1: "select_dtypes_number [(''A1'', FloatCol [Num 1, Num 3, Num 2])] = [''A1'']"
    by (simp add: select_dtypes_number_def)
  have nc2: "select_dtypes_number
      [(''flag'', BoolCol [True, False, True]), (''A1'', FloatCol [Num 1, Num 3, Num 2]),
       (''A2'', FloatCol [Num 10, Num 30, Num 20])] = [''A1'', ''A2'']"
    by (simp add: select_dtypes_number_def)
  have a: "scale_features sklearn_standin
      [(''A1'', FloatCol [Num 1, Num 3, Num 2])]
      (Some [(''A1'', FloatCol [NaN])]) None ''standard'' None =
     Inr ([(''A1'', FloatCol [fdiv (fsub (Num 1) (Num 2)) (Num 2), fdiv (fsub (Num 3) (Num 2)) (Num 2),
                             fdiv (fsub (Num 2) (Num 2)) (Num 2)])],
          Some [(''A1'', FloatCol [fdiv (fsub (Num 0) (Num 2)) (Num 2)])],
          None,
          Some (StandardScaler [Num 2] [Num 2]))"
    unfolding scale_features_def nc1 Let_def
    by (simp add: new_scaler_def numeric_float64_def getitem_cols_def bind_err_def pf md fit_def
        check_array_def sklearn_standin_def transform_filled_def transform_filled_opt_def
        transform_def n_features_in_def fillna_def setitem_cols_def
        del: fdiv.simps)
  have b: "map (\<lambda>(k, m). (k, m ''A1''))
        (scaler_params (export_scaler_params [(''A1'', FloatCol [Num 1, Num 3, Num 2, NaN])]
           (Some (StandardScaler [Num 2] [Num 2])))) =
       [(''mean'', Some (Num 2)), (''scale'', Some (Num 2))]"
    by (simp add: export_scaler_params_def dict_zip_def)
  have c: "fdiv (fsub NaN (Num 2)) (Num 2) = NaN"
    by (simp add: fsub_def)
  have d: "scale_features sklearn_standin
      [(''flag'', BoolCol [True, False, True]), (''A1'', FloatCol [Num 1, Num 3, Num 2]),
       (''A2'', FloatCol [Num 10, Num 30, Num 20])]
      None None ''standard'' None =
     Inr ([(''flag'', BoolCol [True, False, True]),
           (''A1'', FloatCol [fdiv (fsub (Num 1) (Num 2)) (Num 2), fdiv (fsub (Num 3) (Num 2)) (Num 2),
                             fdiv (fsub (Num 2) (Num 2)) (Num 2)]),
           (''A2'', FloatCol [fdiv (fsub (Num 10) (Num 20)) (Num 2), fdiv (fsub (Num 30) (Num 20)) (Num 2),
                             fdiv (fsub (Num 20) (Num 20)) (Num 2)])],
          None, None,
          Some (StandardScaler [Num 2, Num 20] [Num 2, Num 2]))"
    unfolding scale_features_def nc2 Let_def
    by (simp add: new_scaler_def numeric_float64_def getitem_cols_def bind_err_def pf md fit_def
        check_array_def sklearn_standin_def transform_filled_def transform_filled_opt_def
        transform_def n_features_in_def fillna_def setitem_cols_def
        del: fdiv.simps)
  have e: "map (\<lambda>(k, m). (k, m ''flag'', m ''A1'', m ''A2''))
        (scaler_params (export_scaler_params
           [(''flag'', BoolCol [True, False, True, False]), (''A1'', FloatCol [Num 1, Num 3, Num 2, Num 5]),
            (''A2'', FloatCol [Num 10, Num 30, Num 20, Num 50])]
           (Some (StandardScaler [Num 2, Num 20] [Num 2, Num 2])))) =
       [(''mean'', Some (Num 2), Some (Num 20), None),
        (''scale'', Some (Num 2), Some (Num 2), None)]"
    by (simp add: export_scaler_params_def dict_zip_def)
  from a have a': "scale_features sklearn_standin
      [(''A1'', FloatCol [Num 1, Num 3, Num 2])]
      (Some [(''A1'', FloatCol [NaN])]) None ''standard'' None =
     Inr ([(''A1'', FloatCol [fdiv (fsub (Num 1) (Num 2)) (Num 2), fdiv (fsub (Num 3) (Num 2)) (Num 2),
                             fdiv (fsub (Num 2) (Num 2)) (Num 2)])],
          Some [(''A1'', FloatCol [Num (- 1)])],
          None,
          Some (StandardScaler [Num 2] [Num 2]))"
    by (simp only: standin_scaled_zero_cell)
  have f: "Num (- 1) \<noteq> NaN" by simp
  from a' b c f d e show ?thesis by (intro conjI)
qed

section \<open>Properties of the partitioning\<close>

text \<open>
  C2. With a seed given, \<open>split_data\<close> does not read the process-wide generator: two calls
  with the same frames, fractions, seed and stratification key return the same
  partitions (or raise the same exception), whatever the state of that generator.
\<close>

theorem split_data_deterministic:
  "split_data splitter X y test_size validation_size (Some seed) stratify global_state1 =
   split_data splitter X y test_size validation_size (Some seed) stratify global_state2"
proof -
  have seeded: "check_random_state (Some seed) g = Seeded seed" for g
    by (simp add: check_random_state_def)
  show ?thesis
    unfolding split_data_def seeded by (rule refl)
qed

lemma iloc_Inr:
  assumes "iloc d ps = Inr d'"
  shows "index d' = map (\<lambda>p. index d ! p) ps" and "rows d' = map (\<lambda>p. rows d ! p) ps"
  using assms by (auto simp: iloc_def split: if_splits)

lemma train_test_split_Inr:
  assumes "train_test_split splitter X y test_size gen stratify = Inr (X1, X2, y1, y2)"
  shows "\<exists>train test.
           splitter gen (length (rows X)) test_size (map_option rows stratify) = Inr (train, test)
         \<and> iloc X train = Inr X1 \<and> iloc X test = Inr X2
         \<and> iloc y train = Inr y1 \<and> iloc y test = Inr y2"
  using assms
  by (auto simp: train_test_split_def bind_err_Inr split: if_splits)

lemma partition_by_positions:
  assumes "distinct L" and "distinct (ps @ qs)" and "set (ps @ qs) = {0..<length L}"
  shows "distinct (map (\<lambda>p. L ! p) ps)" and "distinct (map (\<lambda>p. L ! p) qs)"
    and "set (map (\<lambda>p. L ! p) ps) \<inter> set (map (\<lambda>p. L ! p) qs) = {}"
    and "set (map (\<lambda>p. L ! p) ps) \<union> set (map (\<lambda>p. L ! p) qs) = set L"
proof -
  have inj: "inj_on (\<lambda>p. L ! p) (set (ps @ qs))"
    unfolding assms(3) using assms(1) by (auto simp: inj_on_def nth_eq_iff_index_eq)
  with assms(2) have d: "distinct (map (\<lambda>p. L ! p) (ps @ qs))"
    by (simp only: distinct_map)
  then show "distinct (map (\<lambda>p. L ! p) ps)" "distinct (map (\<lambda>p. L ! p) qs)"
    "set (map (\<lambda>p. L ! p) ps) \<inter> set (map (\<lambda>p. L ! p) qs) = {}"
    by simp_all
  have "set (map (\<lambda>p. L ! p) (ps @ qs)) = (\<lambda>p. L ! p) ` {0..<length L}"
    using assms(3) by (simp only: set_map)
  also have "\<dots> = set L"
    by (auto simp: set_conv_nth)
  finally show "set (map (\<lambda>p. L ! p) ps) \<union> set (map (\<lambda>p. L ! p) qs) = set L"
    by simp
qed

lemma splits_as_documentedD:
  assumes "splits_as_documented splitter" and "splitter gen n test_size labels = Inr (train, test)"
  shows "distinct (train @ test)" and "set (train @ test) = {0..<n}"
    and "length test = n_test test_size n" and "length train = n - n_test test_size n"
proof -
  from assms show d: "distinct (train @ test)" and s: "set (train @ test) = {0..<n}"
    and t: "length test = n_test test_size n"
    unfolding splits_as_documented_def by blast+
  from d have "card (set (train @ test)) = length (train @ test)"
    by (rule distinct_card)
  with s have "length train + length test = n" by simp
  with t show "length train = n - n_test test_size n" by simp
qed

lemma split_data_partitions_if_returns:
  assumes doc: "splits_as_documented splitter"
    and wf: "length (index X) = length (rows X)"
    and aligned: "index X = index y"
    and uniq: "distinct (index X)"
    and pos: "0 < v"
    and run: "split_data splitter X y test_size (Some v) rstate stratify global_state = Inr res"
  shows "\<exists>X_train X_val X_test y_train y_val y_test.
           res = TrainValTest X_train X_val X_test y_train y_val y_test
         \<and> set (index X_train) \<inter> set (index X_val) = {}
         \<and> set (index X_train) \<inter> set (index X_test) = {}
         \<and> set (index X_val) \<inter> set (index X_test) = {}
         \<and> set (index X_train) \<union> set (index X_val) \<union> set (index X_test) = set (index X)
         \<and> distinct (index X_train) \<and> distinct (index X_val) \<and> distinct (index X_test)
         \<and> length (rows X_test) = n_test test_size (length (rows X))
         \<and> length (rows X_val) = n_test v (length (rows X) - length (rows X_test))
         \<and> length (rows X_train) = length (rows X) - length (rows X_test) - length (rows X_val)
         \<and> index y_train = index X_train \<and> index y_val = index X_val
         \<and> index y_test = index X_test"
proof -
  define strat where "strat =
    (case stratify of None \<Rightarrow> None
     | Some s \<Rightarrow> if index s \<noteq> index y then Some (reset_index s) else Some s)"
  from run aligned pos obtain Xtv Xte ytv yte Xtr Xva ytr yva where
    first: "train_test_split splitter X y test_size
              (check_random_state rstate (global_state 0)) strat = Inr (Xtv, Xte, ytv, yte)"
    and second: "train_test_split splitter Xtv ytv v
              (check_random_state rstate (global_state 1))
              (if strat \<noteq> None then Some ytv else None) = Inr (Xtr, Xva, ytr, yva)"
    and res: "res = TrainValTest Xtr Xva Xte ytr yva yte"
    by (auto simp: split_data_def Let_def bind_err_Inr strat_def)
  from train_test_split_Inr [OF first] obtain tr1 te1 where
    sp1: "splitter (check_random_state rstate (global_state 0)) (length (rows X)) test_size
            (map_option rows strat) = Inr (tr1, te1)"
    and i1: "iloc X tr1 = Inr Xtv" "iloc X te1 = Inr Xte" "iloc y tr1 = Inr ytv" "iloc y te1 = Inr yte"
    by blast
  from train_test_split_Inr [OF second] obtain tr2 te2 where
    sp2: "splitter (check_random_state rstate (global_state 1)) (length (rows Xtv)) v
            (map_option rows (if strat \<noteq> None then Some ytv else None)) = Inr (tr2, te2)"
    and i2: "iloc Xtv tr2 = Inr Xtr" "iloc Xtv te2 = Inr Xva" "iloc ytv tr2 = Inr ytr" "iloc ytv te2 = Inr yva"
    by blast
  note d1 = splits_as_documentedD [OF doc sp1]
  note d2 = splits_as_documentedD [OF doc sp2]
  let ?L = "index X"
  have idx1: "index Xtv = map (\<lambda>p. ?L ! p) tr1" "index Xte = map (\<lambda>p. ?L ! p) te1"
    "index ytv = map (\<lambda>p. ?L ! p) tr1" "index yte = map (\<lambda>p. ?L ! p) te1"
    using i1 by (simp_all add: iloc_Inr aligned)
  have rows1: "length (rows Xtv) = length tr1" "length (rows Xte) = length te1"
    using i1 by (simp_all add: iloc_Inr)
  have s1: "set (tr1 @ te1) = {0..<length ?L}"
    using d1(2) wf by simp
  note p1 = partition_by_positions [OF uniq d1(1) s1]
  let ?L2 = "index Xtv"
  have len2: "length ?L2 = length (rows Xtv)"
    by (simp add: idx1 rows1)
  have idx2: "index Xtr = map (\<lambda>p. ?L2 ! p) tr2" "index Xva = map (\<lambda>p. ?L2 ! p) te2"
    "index ytr = map (\<lambda>p. ?L2 ! p) tr2" "index yva = map (\<lambda>p. ?L2 ! p) te2"
    using i2 by (simp_all add: iloc_Inr idx1)
  have rows2: "length (rows Xtr) = length tr2" "length (rows Xva) = length te2"
    using i2 by (simp_all add: iloc_Inr)
  have s2: "set (tr2 @ te2) = {0..<length ?L2}"
    using d2(2) len2 by simp
  have uniq2: "distinct ?L2"
    using p1(1) by (simp add: idx1)
  note p2 = partition_by_positions [OF uniq2 d2(1) s2]
  have tv_te: "set (index Xtv) \<inter> set (index Xte) = {}"
    and tv_un: "set (index Xtv) \<union> set (index Xte) = set ?L"
    and d_te: "distinct (index Xte)"
    using p1 by (simp_all add: idx1)
  have tr_va: "set (index Xtr) \<inter> set (index Xva) = {}"
    and tr_un: "set (index Xtr) \<union> set (index Xva) = set (index Xtv)"
    and d_tr: "distinct (index Xtr)" and d_va: "distinct (index Xva)"
    using p2 by (simp_all add: idx2)
  have disj: "set (index Xtr) \<inter> set (index Xte) = {}" "set (index Xva) \<inter> set (index Xte) = {}"
    using tv_te tr_un by blast+
  have un: "set (index Xtr) \<union> set (index Xva) \<union> set (index Xte) = set ?L"
    using tv_un tr_un by blast
  have n_te: "length (rows Xte) = n_test test_size (length (rows X))"
    using d1(3) by (simp add: rows1)
  have n_tv: "length (rows Xtv) = length (rows X) - length (rows Xte)"
    using d1(3,4) by (simp add: rows1)
  have n_va: "length (rows Xva) = n_test v (length (rows X) - length (rows Xte))"
    using d2(3) n_tv by (simp add: rows2)
  have n_tr: "length (rows Xtr) = length (rows X) - length (rows Xte) - length (rows Xva)"
    using d2(3,4) n_tv by (simp add: rows2)
  have ys: "index ytr = index Xtr" "index yva = index Xva" "index yte = index Xte"
    by (simp_all add: idx1 idx2)
  from res tr_va disj un d_tr d_va d_te n_te n_va n_tr ys show ?thesis
    by blast
qed

lemma splitter_standin_documented: "splits_as_documented splitter_standin"
proof -
  have "distinct (train @ test) \<and> set (train @ test) = {0..<n} \<and> length test = n_test test_size n"
    if "splitter_standin gen n test_size labels = Inr (train, test)"
    for gen :: rng and n test_size and labels :: "'a list option" and train test
  proof -
    define k where "k = n_test test_size n"
    define offset where
      "offset = (case gen of Seeded seed \<Rightarrow> nat (seed mod int n) | Global state \<Rightarrow> state mod n)"
    define perm where "perm = rotate offset [0..<n]"
    from that have k: "k < n" and tr: "train = drop k perm" and te: "test = take k perm"
      by (auto simp: splitter_standin_def Let_def k_def offset_def perm_def split: if_splits)
    have dp: "distinct perm" and sp: "set perm = {0..<n}" and lp: "length perm = n"
      by (simp_all add: perm_def)
    have "distinct (drop k perm @ take k perm)"
      using dp by (metis append_take_drop_id distinct_append inf_commute)
    moreover have "set (drop k perm @ take k perm) = {0..<n}"
      using sp by (metis append_take_drop_id set_append sup_commute)
    moreover have "length (take k perm) = k"
      using k lp by simp
    ultimately show ?thesis by (simp add: tr te k_def)
  qed
  then show ?thesis unfolding splits_as_documented_def by blast
qed

lemma n_test_half: "n_test (1 / 2) 4 = 2" "n_test (1 / 2) 2 = 1"
  by code_simp+

lemma bind_err_Inl:
  "bind_err r f = Inl e \<longleftrightarrow> r = Inl e \<or> (\<exists>v. r = Inr v \<and> f v = Inl e)"
  by (cases r) (simp_all add: bind_err_def)

lemma iloc_total:
  assumes "\<forall>p \<in> set ps. p < n" and "length (rows d) = n" and "length (index d) = n"
  shows "\<exists>d'. iloc d ps = Inr d'"
  using assms by (simp add: iloc_def)

lemma iloc_lengths:
  assumes "iloc d ps = Inr d'"
  shows "length (rows d') = length ps" and "length (index d') = length ps"
  using assms by (simp_all add: iloc_Inr)

lemma train_test_split_Inl:
  assumes doc: "splits_as_documented splitter"
    and len: "length (rows X) = n" "length (index X) = n" "length (rows y) = n" "length (index y) = n"
    and err: "train_test_split splitter X y test_size gen stratify = Inl e"
  shows "splitter gen n test_size (map_option rows stratify) = Inl e"
proof (cases "splitter gen n test_size (map_option rows stratify)")
  case (Inl e')
  with err len show ?thesis
    by (simp add: train_test_split_def bind_err_def)
next
  case (Inr p)
  obtain train test where p: "p = (train, test)" by (cases p)
  from splits_as_documentedD(2) [OF doc Inr [unfolded p]]
  have "\<forall>q \<in> set train. q < n" "\<forall>q \<in> set test. q < n" by auto
  with len obtain X1 X2 y1 y2 where
    "iloc X train = Inr X1" "iloc X test = Inr X2" "iloc y train = Inr y1" "iloc y test = Inr y2"
    using iloc_total [of train n X] iloc_total [of test n X]
      iloc_total [of train n y] iloc_total [of test n y] by blast
  with err len Inr p show ?thesis
    by (simp add: train_test_split_def bind_err_def)
qed

lemma split_data_raises_only_from_splitter:
  assumes doc: "splits_as_documented splitter"
    and wf: "length (index X) = length (rows X)" "length (index y) = length (rows y)"
    and aligned: "index X = index y"
    and err: "split_data splitter X y test_size validation_size rstate stratify global_state = Inl e"
  shows "\<exists>gen n fraction labels. splitter gen n fraction labels = Inl e"
proof -
  define strat where "strat =
    (case stratify of None \<Rightarrow> None
     | Some s \<Rightarrow> if index s \<noteq> index y then Some (reset_index s) else Some s)"
  let ?n = "length (rows X)"
  have len: "length (rows X) = ?n" "length (index X) = ?n" "length (rows y) = ?n" "length (index y) = ?n"
    using wf aligned by simp_all
  let ?first = "train_test_split splitter X y test_size
              (check_random_state rstate (global_state 0)) strat"
  show ?thesis
  proof (cases ?first)
    case (Inl e')
    from train_test_split_Inl [OF doc len Inl] have "splitter (check_random_state rstate (global_state 0))
        ?n test_size (map_option rows strat) = Inl e'" .
    moreover from err aligned Inl have "e' = e"
      by (simp add: split_data_def Let_def bind_err_def strat_def)
    ultimately show ?thesis by blast
  next
    case (Inr r)
    obtain Xtv Xte ytv yte where r: "r = (Xtv, Xte, ytv, yte)" by (cases r)
    from train_test_split_Inr [OF Inr [unfolded r]] obtain tr1 te1 where
      i1: "iloc X tr1 = Inr Xtv" "iloc y tr1 = Inr ytv" by blast
    let ?m = "length tr1"
    have len2: "length (rows Xtv) = ?m" "length (index Xtv) = ?m"
      "length (rows ytv) = ?m" "length (index ytv) = ?m"
      using iloc_lengths [OF i1(1)] iloc_lengths [OF i1(2)] by simp_all
    from err aligned Inr r obtain v where
      "train_test_split splitter Xtv ytv v (check_random_state rstate (global_state 1))
         (if strat \<noteq> None then Some ytv else None) = Inl e"
      by (auto simp: split_data_def Let_def bind_err_def strat_def
          split: option.splits if_splits sum.splits)
    from train_test_split_Inl [OF doc len2 this] show ?thesis by blast
  qed
qed

text \<open>
  C3. Let the splitter return positions as scikit-learn documents, let \<open>X\<close> and \<open>y\<close> carry
  the same index, without repeated labels, and let the validation fraction be positive.
  Then \<open>split_data\<close> either raises an exception that the splitter raised, or returns
  three partitions: their index sets are pairwise disjoint and together are the index of
  \<open>X\<close>; the test partition has \<open>test_size\<close> of all rows (rounded up), and the validation
  partition has \<open>validation_size\<close> of the rows that are left after the test partition
  was taken (rounded up), not of all rows.
\<close>

theorem split_data_partitions:
  assumes doc: "splits_as_documented splitter"
    and wf: "length (index X) = length (rows X)" "length (index y) = length (rows y)"
    and aligned: "index X = index y"
    and uniq: "distinct (index X)"
    and pos: "0 < v"
  shows "(\<forall>res. split_data splitter X y test_size (Some v) rstate stratify global_state = Inr res \<longrightarrow>
           (\<exists>X_train X_val X_test y_train y_val y_test.
              res = TrainValTest X_train X_val X_test y_train y_val y_test
            \<and> set (index X_train) \<inter> set (index X_val) = {}
            \<and> set (index X_train) \<inter> set (index X_test) = {}
            \<and> set (index X_val) \<inter> set (index X_test) = {}
            \<and> set (index X_train) \<union> set (index X_val) \<union> set (index X_test) = set (index X)
            \<and> distinct (index X_train) \<and> distinct (index X_val) \<and> distinct (index X_test)
            \<and> length (rows X_test) = n_test test_size (length (rows X))
            \<and> length (rows X_val) = n_test v (length (rows X) - length (rows X_test))
            \<and> length (rows X_train) = length (rows X) - length (rows X_test) - length (rows X_val)
            \<and> index y_train = index X_train \<and> index y_val = index X_val
            \<and> index y_test = index X_test))
       \<and> (\<forall>e. split_data splitter X y test_size (Some v) rstate stratify global_state = Inl e \<longrightarrow>
           (\<exists>gen n fraction labels. splitter gen n fraction labels = Inl e))"
proof (intro conjI allI impI)
  fix res
  assume "split_data splitter X y test_size (Some v) rstate stratify global_state = Inr res"
  then show "\<exists>X_train X_val X_test y_train y_val y_test.
              res = TrainValTest X_train X_val X_test y_train y_val y_test
            \<and> set (index X_train) \<inter> set (index X_val) = {}
            \<and> set (index X_train) \<inter> set (index X_test) = {}
            \<and> set (index X_val) \<inter> set (index X_test) = {}
            \<and> set (index X_train) \<union> set (index X_val) \<union> set (index X_test) = set (index X)
            \<and> distinct (index X_train) \<and> distinct (index X_val) \<and> distinct (index X_test)
            \<and> length (rows X_test) = n_test test_size (length (rows X))
            \<and> length (rows X_val) = n_test v (length (rows X) - length (rows X_test))
            \<and> length (rows X_train) = length (rows X) - length (rows X_test) - length (rows X_val)
            \<and> index y_train = index X_train \<and> index y_val = index X_val
            \<and> index y_test = index X_test"
    by (rule split_data_partitions_if_returns [OF doc wf(1) aligned uniq pos])
next
  fix e
  assume "split_data splitter X y test_size (Some v) rstate stratify global_state = Inl e"
  then show "\<exists>gen n fraction labels. splitter gen n fraction labels = Inl e"
    by (rule split_data_raises_only_from_splitter [OF doc wf aligned])
qed

lemma split_data_example:
  "split_data splitter_standin
      \<lparr>index = [0, 1, 2, 3], rows = [''a'', ''b'', ''c'', ''d'']\<rparr>
      \<lparr>index = [0, 1, 2, 3], rows = [False, True, False, True]\<rparr>
      (1 / 2) (Some (1 / 2)) (Some 42) None (\<lambda>k. 0) =
     Inr (TrainValTest
            \<lparr>index = [1], rows = [''b'']\<rparr>
            \<lparr>index = [0], rows = [''a'']\<rparr>
            \<lparr>index = [2, 3], rows = [''c'', ''d'']\<rparr>
            \<lparr>index = [1], rows = [True]\<rparr>
            \<lparr>index = [0], rows = [False]\<rparr>
            \<lparr>index = [2, 3], rows = [False, True]\<rparr>)"
  by code_simp

theorem split_data_deterministic_witness:
  "split_data splitter_standin
      \<lparr>index = [0, 1, 2, 3], rows = [''a'', ''b'', ''c'', ''d'']\<rparr>
      \<lparr>index = [0, 1, 2, 3], rows = [False, True, False, True]\<rparr>
      (1 / 2) (Some (1 / 2)) (Some 42) None (\<lambda>k. 7 + k) =
     Inr (TrainValTest
            \<lparr>index = [1], rows = [''b'']\<rparr>
            \<lparr>index = [0], rows = [''a'']\<rparr>
            \<lparr>index = [2, 3], rows = [''c'', ''d'']\<rparr>
            \<lparr>index = [1], rows = [True]\<rparr>
            \<lparr>index = [0], rows = [False]\<rparr>
            \<lparr>index = [2, 3], rows = [False, True]\<rparr>)"
  using split_data_deterministic [of splitter_standin
      "\<lparr>index = [0, 1, 2, 3], rows = [''a'', ''b'', ''c'', ''d'']\<rparr>"
      "\<lparr>index = [0, 1, 2, 3], rows = [False, True, False, True]\<rparr>"
      "1 / 2" "Some (1 / 2)" 42 None "\<lambda>k. 7 + k" "\<lambda>k. 0"]
  by (simp only: split_data_example)

theorem split_data_partitions_witness:
  "splits_as_documented (splitter_standin :: bool splitter)
   \<and> length (index \<lparr>index = [0, 1, 2, 3], rows = [''a'', ''b'', ''c'', ''d'']\<rparr>) =
       length (rows \<lparr>index = [0, 1, 2, 3], rows = [''a'', ''b'', ''c'', ''d'']\<rparr>)
   \<and> distinct (index \<lparr>index = [0, 1, 2, 3], rows = [''a'', ''b'', ''c'', ''d'']\<rparr>)
   \<and> (0::rat) < 1 / 2
   \<and> (\<exists>X_train X_val X_test y_train y_val y_test.
         split_data splitter_standin
           \<lparr>index = [0, 1, 2, 3], rows = [''a'', ''b'', ''c'', ''d'']\<rparr>
           \<lparr>index = [0, 1, 2, 3], rows = [False, True, False, True]\<rparr>
           (1 / 2) (Some (1 / 2)) (Some 42) None (\<lambda>k. 0) =
           Inr (TrainValTest X_train X_val X_test y_train y_val y_test)
       \<and> set (index X_train) \<union> set (index X_val) \<union> set (index X_test) = {0, 1, 2, 3}
       \<and> length (rows X_test) = 2 \<and> length (rows X_val) = 1 \<and> length (rows X_train) = 1)"
proof -
  let ?X = "\<lparr>index = [0, 1, 2, 3], rows = [''a'', ''b'', ''c'', ''d'']\<rparr>"
  let ?y = "\<lparr>index = [0, 1, 2, 3], rows = [False, True, False, True]\<rparr>"
  have h1: "splits_as_documented (splitter_standin :: bool splitter)"
    by (rule splitter_standin_documented)
  have h2: "length (index ?X) = length (rows ?X)" by simp
  have h3: "index ?X = index ?y" by simp
  have h4: "distinct (index ?X)" by simp
  have h5: "(0::rat) < 1 / 2" by simp
  have h2y: "length (index ?y) = length (rows ?y)" by simp
  note h6 = split_data_example
  from split_data_partitions [OF h1 h2 h2y h3 h4 h5, THEN conjunct1, rule_format, OF h6]
  obtain X_train X_val X_test and y_train y_val y_test :: "bool pandas" where
    r: "TrainValTest
            \<lparr>index = [1], rows = [''b'']\<rparr>
            \<lparr>index = [0], rows = [''a'']\<rparr>
            \<lparr>index = [2, 3], rows = [''c'', ''d'']\<rparr>
            \<lparr>index = [1], rows = [True]\<rparr>
            \<lparr>index = [0], rows = [False]\<rparr>
            \<lparr>index = [2, 3], rows = [False, True]\<rparr>
         = TrainValTest X_train X_val X_test y_train y_val y_test"
    and u: "set (index X_train) \<union> set (index X_val) \<union> set (index X_test) = set (index ?X)"
    and n: "length (rows X_test) = n_test (1 / 2) (length (rows ?X))"
      "length (rows X_val) = n_test (1 / 2) (length (rows ?X) - length (rows X_test))"
      "length (rows X_train) = length (rows ?X) - length (rows X_test) - length (rows X_val)"
    by blast
  have four: "length (rows ?X) = 4" by simp
  from n(1) have t: "length (rows X_test) = 2"
    by (simp only: four n_test_half)
  have "(4::nat) - 2 = 2" by simp
  with n(2) have va: "length (rows X_val) = 1"
    by (simp only: four t n_test_half)
  have "(4::nat) - 2 - 1 = 1" by simp
  with n(3) have "length (rows X_train) = 1"
    by (simp only: four t va)
  with t va have n': "length (rows X_test) = 2" "length (rows X_val) = 1" "length (rows X_train) = 1"
    by simp_all
  from u have u': "set (index X_train) \<union> set (index X_val) \<union> set (index X_test) = {0, 1, 2, 3}"
    by auto
  from h6 r have "split_data splitter_standin ?X ?y (1 / 2) (Some (1 / 2)) (Some 42) None (\<lambda>k. 0) =
           Inr (TrainValTest X_train X_val X_test y_train y_val y_test)"
    by simp
  with u' n' h1 h2 h4 h5 show ?thesis by blast
qed

section \<open>Properties of the pipeline's first stage\<close>

text \<open>
  C9. When the ingestion yields no record, \<open>run_pipeline\<close> prints that no data was
  fetched and returns: its effects end with that message, are the same whatever stages
  2 to 7 would do, and contain no written file. The only other effect of the program is
  the output directory made when the module is loaded. The ingestion yields no record
  when the fetch fails and when the collection has no document.
\<close>

theorem no_records_no_artifact:
  assumes "snd (fetch_from_firestore stream json_normalize (Some 10000)) = []"
  shows "run_pipeline stream json_normalize later_stages config_path =
           run_pipeline stream json_normalize (\<lambda>raw_df. []) config_path
       \<and> last (run_pipeline stream json_normalize later_stages config_path) =
           Print ''No data fetched (mock response was empty). Exiting.''
       \<and> filter is_write (module_load @ run_pipeline stream json_normalize later_stages config_path) = []
       \<and> (\<forall>stream'. (\<exists>e. stream' (Some 10000) = Inl e) \<or> stream' (Some 10000) = Inr [] \<longrightarrow>
             snd (fetch_from_firestore stream' json_normalize (Some 10000)) = [])"
proof -
  obtain fx where f: "fetch_from_firestore stream json_normalize (Some 10000) = (fx, [])"
    using assms by (cases "fetch_from_firestore stream json_normalize (Some 10000)") simp
  have w: "filter is_write fx = []"
    using f by (auto simp: fetch_from_firestore_def Let_def split: sum.splits if_splits)
  have "run_pipeline stream json_normalize later_stages config_path =
      run_pipeline stream json_normalize (\<lambda>raw_df. []) config_path"
    by (simp add: run_pipeline_def f empty_frame_def)
  moreover have "last (run_pipeline stream json_normalize later_stages config_path) =
      Print ''No data fetched (mock response was empty). Exiting.''"
    by (simp add: run_pipeline_def f empty_frame_def)
  moreover have "filter is_write
      (module_load @ run_pipeline stream json_normalize later_stages config_path) = []"
    by (simp add: run_pipeline_def f empty_frame_def module_load_def w)
  moreover have "snd (fetch_from_firestore stream' json_normalize (Some 10000)) = []"
    if "(\<exists>e. stream' (Some 10000) = Inl e) \<or> stream' (Some 10000) = Inr []" for stream'
    using that by (auto simp: fetch_from_firestore_def)
  ultimately show ?thesis by blast
qed

theorem no_records_no_artifact_witness:
  "snd (fetch_from_firestore (\<lambda>limit. Inl (ValueError ''transport'')) (\<lambda>docs. []) (Some 10000)) = []
   \<and> run_pipeline (\<lambda>limit. Inl (ValueError ''transport'')) (\<lambda>docs. [])
        (\<lambda>raw_df. [WriteFile ''trained_models/esp_model_metadata.json'']) ''cfg'' =
       [Print ''Starting ML training pipeline with config path (unused for now): cfg'',
        Print ''Using hardcoded configuration'',
        Print ''--- Stage 1: Data Ingestion ---'',
        Print ''Attempting to fetch data from Firestore collection'',
        Print ''Error fetching data from Firestore'',
        Print ''No data fetched (mock response was empty). Exiting.'']"
proof -
  have h: "snd (fetch_from_firestore (\<lambda>limit. Inl (ValueError ''transport'')) (\<lambda>docs. [])
      (Some 10000)) = []"
    by (simp add: fetch_from_firestore_def)
  from no_records_no_artifact [OF h, of
      "\<lambda>raw_df. [WriteFile ''trained_models/esp_model_metadata.json'']" "''cfg''"]
  have "run_pipeline (\<lambda>limit. Inl (ValueError ''transport'')) (\<lambda>docs. [])
        (\<lambda>raw_df. [WriteFile ''trained_models/esp_model_metadata.json'']) ''cfg'' =
      run_pipeline (\<lambda>limit. Inl (ValueError ''transport'')) (\<lambda>docs. []) (\<lambda>raw_df. []) ''cfg''"
    by blast
  also have "\<dots> = [Print ''Starting ML training pipeline with config path (unused for now): cfg'',
        Print ''Using hardcoded configuration'',
        Print ''--- Stage 1: Data Ingestion ---'',
        Print ''Attempting to fetch data from Firestore collection'',
        Print ''Error fetching data from Firestore'',
        Print ''No data fetched (mock response was empty). Exiting.'']"
    by (simp add: run_pipeline_def fetch_from_firestore_def empty_frame_def)
  finally show ?thesis using h by simp
qed

section \<open>Properties of the profit-to-gas ratio\<close>

text \<open>
  C7, as amended. For every record, whenever line 50 returns, the ratio cell is the
  float64 quotient of the record's own profit by the float64 sum of its gas cost and
  \<open>1e-6\<close>, both taken after defaulting, and it is missing when one of the two is missing;
  the same formula serves every record. Line 50 does return when the profits and gas
  costs of a non-empty frame are all floats. The sum is a finite number above the gas
  cost whenever the gas cost has a magnitude of at most \<open>2 ^ 34 - 1\<close>; for a zero gas cost
  it is \<open>1e-6\<close> itself, which is positive. A \<open>ZeroDivisionError\<close> of line 50 is always due to
  a record whose gas cost is a number other than zero, never to a zero gas cost.
\<close>

theorem ratio_uses_epsilon_denominator:
  "(\<forall>ratio. A3_initialProfitToGasRatio xs = Inr ratio \<longrightarrow>
      length (series_cells ratio) = length xs \<and>
      (\<forall>i < length xs.
         (isnull (A1_estimatedNetProfitUsd_PreEsp (xs ! i)) \<or>
          isnull (A2_estimatedGasCostUsd_Initial (xs ! i)) \<longrightarrow>
            series_cells ratio ! i = NaN) \<and>
         (\<not> isnull (A1_estimatedNetProfitUsd_PreEsp (xs ! i)) \<and>
          \<not> isnull (A2_estimatedGasCostUsd_Initial (xs ! i)) \<longrightarrow>
            (\<exists>p g. py_float (A1_estimatedNetProfitUsd_PreEsp (xs ! i)) = Inr p
                 \<and> py_float (A2_estimatedGasCostUsd_Initial (xs ! i)) = Inr g
                 \<and> series_cells ratio ! i = fdiv p (fadd g eps_1e6)))))
   \<and> (xs \<noteq> [] \<and> (\<forall>x \<in> set xs. is_float (A1_estimatedNetProfitUsd_PreEsp x)
                              \<and> is_float (A2_estimatedGasCostUsd_Initial x)) \<longrightarrow>
        (\<exists>cells. A3_initialProfitToGasRatio xs = Inr (NumericSeries cells)))
   \<and> (\<forall>r. \<bar>r\<bar> \<le> 2 ^ 34 - 1 \<longrightarrow> (\<exists>d. fadd (Num r) eps_1e6 = Num d \<and> r < d))
   \<and> fadd (Num 0) eps_1e6 = eps_1e6
   \<and> (\<exists>e. eps_1e6 = Num e \<and> 0 < e)
   \<and> (A3_initialProfitToGasRatio xs = Inl ZeroDivisionError \<longrightarrow>
        (\<exists>i < length xs. \<exists>r. py_float (A2_estimatedGasCostUsd_Initial (xs ! i)) = Inr (Num r)
            \<and> r \<noteq> 0 \<and> fadd (Num r) eps_1e6 = Num 0))"
proof (intro conjI allI impI)
  fix ratio
  assume r: "A3_initialProfitToGasRatio xs = Inr ratio"
  then show "length (series_cells ratio) = length xs" by (rule A3_cells(1))
  fix i
  assume i: "i < length xs"
  {
    assume "isnull (A1_estimatedNetProfitUsd_PreEsp (xs ! i)) \<or>
        isnull (A2_estimatedGasCostUsd_Initial (xs ! i))"
    with r i show "series_cells ratio ! i = NaN" by (rule A3_cells(2))
  }
  {
    assume "\<not> isnull (A1_estimatedNetProfitUsd_PreEsp (xs ! i)) \<and>
        \<not> isnull (A2_estimatedGasCostUsd_Initial (xs ! i))"
    then have n1: "\<not> isnull (A1_estimatedNetProfitUsd_PreEsp (xs ! i))"
      and n2: "\<not> isnull (A2_estimatedGasCostUsd_Initial (xs ! i))" by simp_all
    from r i n1 n2
    show "\<exists>p g. py_float (A1_estimatedNetProfitUsd_PreEsp (xs ! i)) = Inr p
            \<and> py_float (A2_estimatedGasCostUsd_Initial (xs ! i)) = Inr g
            \<and> series_cells ratio ! i = fdiv p (fadd g eps_1e6)"
      by (rule A3_cells(3))
  }
next
  assume "xs \<noteq> [] \<and> (\<forall>x \<in> set xs. is_float (A1_estimatedNetProfitUsd_PreEsp x)
                              \<and> is_float (A2_estimatedGasCostUsd_Initial x))"
  then have "xs \<noteq> []" and "\<forall>x \<in> set xs. is_float (A1_estimatedNetProfitUsd_PreEsp x)
                              \<and> is_float (A2_estimatedGasCostUsd_Initial x)"
    by simp_all
  from A3_floats [OF this]
  show "\<exists>cells. A3_initialProfitToGasRatio xs = Inr (NumericSeries cells)" by blast
next
  fix r :: rat
  assume "\<bar>r\<bar> \<le> 2 ^ 34 - 1"
  then show "\<exists>d. fadd (Num r) eps_1e6 = Num d \<and> r < d" by (rule fadd_eps_above)
next
  show "fadd (Num 0) eps_1e6 = eps_1e6" by (rule fadd_zero_eps)
next
  show "\<exists>e. eps_1e6 = Num e \<and> 0 < e" by (rule eps_1e6_pos)
next
  assume "A3_initialProfitToGasRatio xs = Inl ZeroDivisionError"
  then show "\<exists>i < length xs. \<exists>r. py_float (A2_estimatedGasCostUsd_Initial (xs ! i)) = Inr (Num r)
            \<and> r \<noteq> 0 \<and> fadd (Num r) eps_1e6 = Num 0"
    by (rule A3_ZeroDivisionError)
qed

theorem ratio_uses_epsilon_denominator_witness:
  "A3_initialProfitToGasRatio
     [PDict [(''estimatedNetProfitUsd_PreEsp'', PFloat (Num 100)),
             (''estimatedGasCostUsd_Initial'', PFloat (Num 0))],
      PDict []] =
   Inr (NumericSeries [fdiv (Num 100) eps_1e6, NaN])"
proof -
  let ?x = "PDict [(''estimatedNetProfitUsd_PreEsp'', PFloat (Num 100)),
                   (''estimatedGasCostUsd_Initial'', PFloat (Num 0))]"
  let ?xs = "[?x, PDict []]"
  have a1: "A1_estimatedNetProfitUsd_PreEsp ?x = PFloat (Num 100)"
    "A1_estimatedNetProfitUsd_PreEsp (PDict []) = np_nan"
    by (simp_all add: A1_estimatedNetProfitUsd_PreEsp_def)
  have a2: "A2_estimatedGasCostUsd_Initial ?x = PFloat (Num 0)"
    "A2_estimatedGasCostUsd_Initial (PDict []) = np_nan"
    by (simp_all add: A2_estimatedGasCostUsd_Initial_def)
  have h: "?xs \<noteq> [] \<and> (\<forall>x \<in> set ?xs. is_float (A1_estimatedNetProfitUsd_PreEsp x)
                              \<and> is_float (A2_estimatedGasCostUsd_Initial x))"
    by (simp add: a1 a2)
  note t = ratio_uses_epsilon_denominator [of ?xs]
  from t h obtain cells where c: "A3_initialProfitToGasRatio ?xs = Inr (NumericSeries cells)"
    by blast
  from t c have len: "length (series_cells (NumericSeries cells)) = length ?xs"
    by blast
  then have len2: "length cells = 2" by simp
  have i0: "(0::nat) < length ?xs" and i1: "(1::nat) < length ?xs" by simp_all
  from t c i0 have
    "\<not> isnull (A1_estimatedNetProfitUsd_PreEsp (?xs ! 0)) \<and>
     \<not> isnull (A2_estimatedGasCostUsd_Initial (?xs ! 0)) \<longrightarrow>
       (\<exists>p g. py_float (A1_estimatedNetProfitUsd_PreEsp (?xs ! 0)) = Inr p
            \<and> py_float (A2_estimatedGasCostUsd_Initial (?xs ! 0)) = Inr g
            \<and> series_cells (NumericSeries cells) ! 0 = fdiv p (fadd g eps_1e6))"
    by blast
  then have "cells ! 0 = fdiv (Num 100) (fadd (Num 0) eps_1e6)"
    by (simp add: a1 a2 del: fadd.simps fdiv.simps)
  moreover from t have "fadd (Num 0) eps_1e6 = eps_1e6" by blast
  ultimately have c0: "cells ! 0 = fdiv (Num 100) eps_1e6" by (simp only:)
  from t c i1 have
    "isnull (A1_estimatedNetProfitUsd_PreEsp (?xs ! 1)) \<or>
     isnull (A2_estimatedGasCostUsd_Initial (?xs ! 1)) \<longrightarrow>
       series_cells (NumericSeries cells) ! 1 = NaN"
    by blast
  then have c1: "cells ! 1 = NaN" by (simp add: a1 a2)
  have "cells = [cells ! 0, cells ! 1]"
  proof (rule nth_equalityI)
    show "length cells = length [cells ! 0, cells ! 1]" using len2 by simp
  next
    fix i assume "i < length cells"
    with len2 have "i = 0 \<or> i = 1" by auto
    then show "cells ! i = [cells ! 0, cells ! 1] ! i" by auto
  qed
  with c0 c1 have "cells = [fdiv (Num 100) eps_1e6, NaN]" by (simp only:)
  with c show ?thesis by (simp only:)
qed

text \<open>
  The claim as stated fails for a gas cost of \<open>2 ^ 34\<close> dollars: the sum with \<open>1e-6\<close> rounds
  back to the gas cost, so the denominator of the division is exactly the raw gas cost.
\<close>

theorem ratio_denominator_counterexample:
  "A2_estimatedGasCostUsd_Initial
     (PDict [(''estimatedNetProfitUsd_PreEsp'', PFloat (Num 100)),
             (''estimatedGasCostUsd_Initial'', PFloat (Num 17179869184))]) =
     PFloat (Num 17179869184)
   \<and> fadd (Num 17179869184) eps_1e6 = Num 17179869184
   \<and> A3_initialProfitToGasRatio
       [PDict [(''estimatedNetProfitUsd_PreEsp'', PFloat (Num 100)),
               (''estimatedGasCostUsd_Initial'', PFloat (Num 17179869184))]] =
     Inr (NumericSeries [fdiv (Num 100) (Num 17179869184)])"
proof -
  let ?x = "PDict [(''estimatedNetProfitUsd_PreEsp'', PFloat (Num 100)),
                   (''estimatedGasCostUsd_Initial'', PFloat (Num 17179869184))]"
  have a1: "A1_estimatedNetProfitUsd_PreEsp ?x = PFloat (Num 100)"
    by (simp add: A1_estimatedNetProfitUsd_PreEsp_def)
  have a2: "A2_estimatedGasCostUsd_Initial ?x = PFloat (Num 17179869184)"
    by (simp add: A2_estimatedGasCostUsd_Initial_def)
  have "[?x] \<noteq> []" by simp
  moreover have "\<forall>x \<in> set [?x]. is_float (A1_estimatedNetProfitUsd_PreEsp x)
                              \<and> is_float (A2_estimatedGasCostUsd_Initial x)"
    by (simp add: a1 a2)
  ultimately have "A3_initialProfitToGasRatio [?x] =
      Inr (NumericSeries (map (\<lambda>x. fdiv (float64_cell (A1_estimatedNetProfitUsd_PreEsp x))
                                  (fadd (float64_cell (A2_estimatedGasCostUsd_Initial x)) eps_1e6)) [?x]))"
    by (rule A3_floats)
  then have "A3_initialProfitToGasRatio [?x] =
      Inr (NumericSeries [fdiv (Num 100) (Num 17179869184)])"
    by (simp add: a1 a2 fadd_absorbs_eps del: fadd.simps fdiv.simps)
  with a2 fadd_absorbs_eps show ?thesis by blast
qed

end
